theory Spec2Isabelle
  imports Main "HOL-Library.Sublist" "HOL-Library.Word"
begin

section \<open>Decoded JSON and the Python operations the search code applies to it\<close>

text \<open>
  \<^verbatim>\<open>response.json()\<close> yields a Python value built from dicts, lists, strings, numbers,
  booleans and \<^verbatim>\<open>None\<close>. A dict is an association list read with \<open>map_of\<close>. A JSON
  number decodes to a Python \<^verbatim>\<open>int\<close>, which is unbounded, or to a Python \<^verbatim>\<open>float\<close>,
  which is a 64-bit IEEE 754 value and is given here by its bit pattern: the code never
  computes with a float, it only passes one on or supplies the constant \<^verbatim>\<open>0.0\<close>, whose
  pattern is 0.
\<close>

type_synonym float64 = "64 word"

datatype json =
    JNull
  | JBool bool
  | JInt int
  | JFloat float64
  | JStr string
  | JArr "json list"
  | JObj "(string \<times> json) list"

text \<open>The Python exceptions the code meets, other than its own \<^verbatim>\<open>SearchError\<close>.\<close>

datatype py_exn =
    HTTPStatusError nat string
  | TimeoutException
  | TypeError
  | AttributeError
  | KeyError string
  | ValidationError
  | ValueError
  | OtherException string

text \<open>\<^verbatim>\<open>k in x\<close>: key membership on a dict, element membership on a list, substring test
  on a string, \<^verbatim>\<open>TypeError\<close> on anything else.\<close>

fun py_in :: "string \<Rightarrow> json \<Rightarrow> py_exn + bool" where
  "py_in k (JObj d) = Inr (map_of d k \<noteq> None)"
| "py_in k (JArr xs) = Inr (JStr k \<in> set xs)"
| "py_in k (JStr s) = Inr (sublist k s)"
| "py_in k _ = Inl TypeError"

text \<open>\<^verbatim>\<open>x[k]\<close> with a string key: the value on a dict (\<^verbatim>\<open>KeyError\<close> when missing),
  \<^verbatim>\<open>TypeError\<close> on anything else.\<close>

fun py_subscript :: "json \<Rightarrow> string \<Rightarrow> py_exn + json" where
  "py_subscript (JObj d) k = (case map_of d k of Some v \<Rightarrow> Inr v | None \<Rightarrow> Inl (KeyError k))"
| "py_subscript _ k = Inl TypeError"

text \<open>\<^verbatim>\<open>x.get(k, default)\<close>: only dicts have the method.\<close>

fun py_get :: "json \<Rightarrow> string \<Rightarrow> json \<Rightarrow> py_exn + json" where
  "py_get (JObj d) k dflt = Inr (case map_of d k of Some v \<Rightarrow> v | None \<Rightarrow> dflt)"
| "py_get _ k dflt = Inl AttributeError"

text \<open>\<^verbatim>\<open>for item in x\<close>: the elements of a list, the keys of a dict, the characters of a
  string; \<^verbatim>\<open>TypeError\<close> on anything else.\<close>

fun py_iter :: "json \<Rightarrow> py_exn + json list" where
  "py_iter (JArr xs) = Inr xs"
| "py_iter (JObj d) = Inr (map (\<lambda>kv. JStr (fst kv)) d)"
| "py_iter (JStr s) = Inr (map (\<lambda>c. JStr [c]) s)"
| "py_iter _ = Inl TypeError"

section \<open>SearchResults and its field validation\<close>

record SearchResults =
  title :: string
  url :: string
  snippet :: string
  score :: "float64 option"

text \<open>
  \<^verbatim>\<open>SearchResults\<close> is a pydantic model: \<^verbatim>\<open>title\<close>, \<^verbatim>\<open>url\<close>, \<^verbatim>\<open>snippet\<close> are \<^verbatim>\<open>str\<close>
  and \<^verbatim>\<open>score\<close> is \<^verbatim>\<open>Optional[float]\<close>. A string validates as itself for a \<^verbatim>\<open>str\<close>
  field, a float as itself for a \<^verbatim>\<open>float\<close> field, and \<^verbatim>\<open>None\<close> as \<^verbatim>\<open>None\<close> for an
  optional field. What the library does with a value of another type depends on its
  version and mode, so it is a parameter: \<open>coerce_str\<close> and \<open>coerce_float\<close> return
  \<open>None\<close> where validation fails. An \<^verbatim>\<open>int\<close> given to the \<^verbatim>\<open>float\<close> field is such a
  value: the library converts it to a float, which rounds an integer that has no exact
  64-bit float and fails for one beyond the range of floats.
\<close>

record validators =
  coerce_str :: "json \<Rightarrow> string option"
  coerce_float :: "json \<Rightarrow> float64 option"

fun validate_str :: "validators \<Rightarrow> json \<Rightarrow> string option" where
  "validate_str V (JStr s) = Some s"
| "validate_str V v = coerce_str V v"

fun validate_optional_float :: "validators \<Rightarrow> json \<Rightarrow> float64 option option" where
  "validate_optional_float V JNull = Some None"
| "validate_optional_float V (JFloat x) = Some (Some x)"
| "validate_optional_float V v = map_option Some (coerce_float V v)"

text \<open>The validators that reject every value of another type; the examples below use
  them on strings, floats and \<^verbatim>\<open>None\<close> only, where no coercion takes place.\<close>

definition strict_validators :: validators where
  "strict_validators = \<lparr>coerce_str = (\<lambda>v. None), coerce_float = (\<lambda>v. None)\<rparr>"

text \<open>The constructor call \<^verbatim>\<open>SearchResults(title=.., url=.., snippet=.., score=..)\<close>:
  \<^verbatim>\<open>ValidationError\<close> when a field does not validate.\<close>

definition SearchResults_init :: "validators \<Rightarrow> json \<Rightarrow> json \<Rightarrow> json \<Rightarrow> json \<Rightarrow> py_exn + SearchResults" where
  "SearchResults_init V t u s sc =
     (case (validate_str V t, validate_str V u, validate_str V s, validate_optional_float V sc) of
        (Some t', Some u', Some s', Some sc') \<Rightarrow>
          Inr \<lparr>title = t', url = u', snippet = s', score = sc'\<rparr>
      | _ \<Rightarrow> Inl ValidationError)"

section \<open>Normalising one upstream item\<close>

text \<open>
  \<^verbatim>\<open>search_brave\<close>, lines 81-86 and 94-99:
  \<^verbatim>\<open>SearchResults(title=item.get("title", ""), url=item.get("url", ""),
                 snippet=item.get("description", ""), score=item.get("score", 0.0))\<close>
  The first \<^verbatim>\<open>item.get\<close> raises \<^verbatim>\<open>AttributeError\<close> when the item is not a dict.
\<close>

fun brave_item :: "validators \<Rightarrow> json \<Rightarrow> py_exn + SearchResults" where
  "brave_item V (JObj d) =
     SearchResults_init V
       (case map_of d ''title'' of Some v \<Rightarrow> v | None \<Rightarrow> JStr [])
       (case map_of d ''url'' of Some v \<Rightarrow> v | None \<Rightarrow> JStr [])
       (case map_of d ''description'' of Some v \<Rightarrow> v | None \<Rightarrow> JStr [])
       (case map_of d ''score'' of Some v \<Rightarrow> v | None \<Rightarrow> JFloat 0)"
| "brave_item V item = Inl AttributeError"

text \<open>
  \<^verbatim>\<open>search_searxng\<close>, lines 155-159: no \<^verbatim>\<open>score\<close> argument, so the field takes its
  declared default \<^verbatim>\<open>None\<close>.
\<close>

fun searxng_item :: "validators \<Rightarrow> json \<Rightarrow> py_exn + SearchResults" where
  "searxng_item V (JObj d) =
     SearchResults_init V
       (case map_of d ''title'' of Some v \<Rightarrow> v | None \<Rightarrow> JStr [])
       (case map_of d ''url'' of Some v \<Rightarrow> v | None \<Rightarrow> JStr [])
       (case map_of d ''content'' of Some v \<Rightarrow> v | None \<Rightarrow> JStr [])
       JNull"
| "searxng_item V item = Inl AttributeError"

section \<open>The result loops\<close>

text \<open>
  \<^verbatim>\<open>SearchError\<close>, one constructor for each message the code raises it with:
  \<^item> \<open>NoProviderConfigured\<close>: "No search provider configured. Please set either
    BRAVE_API_KEY or SEARXNG_BASE_URL" (\<^verbatim>\<open>__init__\<close>);
  \<^item> \<open>BraveKeyNotSet\<close>: "BRAVE_API_KEY not set in environment variables";
  \<^item> \<open>BraveApiError c t\<close>: "Brave API error: c - t";
  \<^item> \<open>BraveTimedOut\<close>: "Brave API request timed out";
  \<^item> \<open>BraveUnexpected e\<close>: "Unexpected error in Brave search: e";
  \<^item> the four SearXNG messages likewise;
  \<^item> \<open>NoProviderInSearch\<close>: "No search provider configured" (\<^verbatim>\<open>search\<close>).
\<close>

datatype search_error =
    NoProviderConfigured
  | BraveKeyNotSet
  | BraveApiError nat string
  | BraveTimedOut
  | BraveUnexpected py_exn
  | SearXNGUrlNotSet
  | SearXNGApiError nat string
  | SearXNGTimedOut
  | SearXNGUnexpected py_exn
  | NoProviderInSearch

text \<open>What the code prints; the loops print one warning for each item they skip.\<close>

datatype log_line =
    WarnBrave py_exn
  | WarnBraveFallback py_exn
  | WarnSearXNG py_exn
  | DebugStartingSearch string
  | ErrorNoProvider
  | DebugUsingBrave
  | DebugUsingSearXNG
  | DebugReturned nat
  | ErrorSearchFailed search_error

text \<open>
  \<^verbatim>\<open>for item in items: try: results.append(build(item)) except Exception as e: print(warn(e))\<close>
  with the list \<open>results\<close> and the printed lines as state.
\<close>

fun result_loop ::
  "(json \<Rightarrow> py_exn + SearchResults) \<Rightarrow> (py_exn \<Rightarrow> log_line) \<Rightarrow> json list \<Rightarrow>
   SearchResults list \<times> log_line list \<Rightarrow> SearchResults list \<times> log_line list" where
  "result_loop build warn [] st = st"
| "result_loop build warn (item # items) (results, out) =
     (case build item of
        Inr r \<Rightarrow> result_loop build warn items (results @ [r], out)
      | Inl e \<Rightarrow> result_loop build warn items (results, out @ [warn e]))"

text \<open>
  \<^verbatim>\<open>search_brave\<close>, lines 76-104, on the decoded body \<open>data\<close>: the nested array
  \<^verbatim>\<open>data["web"]["results"]\<close> when both keys are there, else the top-level
  \<^verbatim>\<open>data.get("results", [])\<close>. An exception outside the per-item \<^verbatim>\<open>try\<close> leaves the
  block.
\<close>

definition brave_results :: "validators \<Rightarrow> json \<Rightarrow> py_exn + SearchResults list \<times> log_line list" where
  "brave_results V data =
     (case py_in ''web'' data of
        Inl e \<Rightarrow> Inl e
      | Inr has_web \<Rightarrow>
         (case (if has_web
                then (case py_subscript data ''web'' of
                        Inl e \<Rightarrow> Inl e
                      | Inr web \<Rightarrow> py_in ''results'' web)
                else Inr False) of
            Inl e \<Rightarrow> Inl e
          | Inr True \<Rightarrow>
             (case py_subscript data ''web'' of
                Inl e \<Rightarrow> Inl e
              | Inr web \<Rightarrow>
                 (case py_subscript web ''results'' of
                    Inl e \<Rightarrow> Inl e
                  | Inr arr \<Rightarrow>
                     (case py_iter arr of
                        Inl e \<Rightarrow> Inl e
                      | Inr items \<Rightarrow> Inr (result_loop (brave_item V) WarnBrave items ([], [])))))
          | Inr False \<Rightarrow>
             (case py_get data ''results'' (JArr []) of
                Inl e \<Rightarrow> Inl e
              | Inr arr \<Rightarrow>
                 (case py_iter arr of
                    Inl e \<Rightarrow> Inl e
                  | Inr items \<Rightarrow>
                      Inr (result_loop (brave_item V) WarnBraveFallback items ([], []))))))"

text \<open>\<^verbatim>\<open>search_searxng\<close>, lines 152-164.\<close>

definition searxng_results :: "validators \<Rightarrow> json \<Rightarrow> py_exn + SearchResults list \<times> log_line list" where
  "searxng_results V data =
     (case py_get data ''results'' (JArr []) of
        Inl e \<Rightarrow> Inl e
      | Inr arr \<Rightarrow>
         (case py_iter arr of
            Inl e \<Rightarrow> Inl e
          | Inr items \<Rightarrow> Inr (result_loop (searxng_item V) WarnSearXNG items ([], []))))"

section \<open>WebSearchTool\<close>

text \<open>The environment is what \<^verbatim>\<open>os.getenv\<close> reads: a partial map from names to values.
  A value is truthy when it is set and not empty.\<close>

type_synonym environ = "string \<Rightarrow> string option"

definition truthy :: "string option \<Rightarrow> bool" where
  "truthy v = (case v of None \<Rightarrow> False | Some s \<Rightarrow> s \<noteq> [])"

record WebSearchTool =
  brave_api_key :: "string option"
  searxng_base_url :: "string option"
  provider :: string

text \<open>\<^verbatim>\<open>WebSearchTool.__init__\<close>, lines 32-41.\<close>

definition WebSearchTool_init :: "environ \<Rightarrow> search_error + WebSearchTool" where
  "WebSearchTool_init getenv =
     (let key = getenv ''BRAVE_API_KEY'';
          base = getenv ''SEARXNG_BASE_URL'';
          p = (if truthy key then ''brave'' else ''searxng'')
      in if \<not> (truthy key \<or> truthy base) then Inl NoProviderConfigured
         else Inr \<lparr>brave_api_key = key, searxng_base_url = base, provider = p\<rparr>)"

subsection \<open>One attempt of a provider call\<close>

text \<open>
  The HTTP exchange is the environment's part: a request goes out and either an exception
  comes back or a reply with a success status and a body that decodes does.
\<close>

record http_request =
  req_url :: string
  req_params :: "(string \<times> string) list"
  req_headers :: "(string \<times> string) list"
  req_timeout :: nat

datatype fetch = Raises py_exn | Body json

text \<open>The \<^verbatim>\<open>except\<close> clauses of lines 106-113 and 166-173.\<close>

fun brave_except :: "py_exn \<Rightarrow> search_error" where
  "brave_except (HTTPStatusError c t) = BraveApiError c t"
| "brave_except TimeoutException = BraveTimedOut"
| "brave_except e = BraveUnexpected e"

fun searxng_except :: "py_exn \<Rightarrow> search_error" where
  "searxng_except (HTTPStatusError c t) = SearXNGApiError c t"
| "searxng_except TimeoutException = SearXNGTimedOut"
| "searxng_except e = SearXNGUnexpected e"

text \<open>The requests of lines 66-71 and 138-147.\<close>

definition brave_request :: "string \<Rightarrow> string \<Rightarrow> http_request" where
  "brave_request key query =
     \<lparr>req_url = ''https://api.search.brave.com/res/v1/web/search'',
      req_params = [(''q'', query), (''count'', ''5'')],
      req_headers = [(''X-Subscription-Token'', key)],
      req_timeout = 10\<rparr>"

definition searxng_request :: "string \<Rightarrow> string \<Rightarrow> http_request" where
  "searxng_request base query =
     \<lparr>req_url = base @ ''/search'',
      req_params = [(''q'', query), (''format'', ''json''),
                    (''language'', ''en-US''), (''num'', ''5'')],
      req_headers = [],
      req_timeout = 10\<rparr>"

text \<open>The body of \<^verbatim>\<open>search_brave\<close>, lines 61-113, run once; \<open>send\<close> is the exchange.
  \<open>Raises e\<close> is an exception of \<^verbatim>\<open>client.get\<close>, \<^verbatim>\<open>raise_for_status()\<close> or \<^verbatim>\<open>json()\<close>;
  \<open>Body data\<close> is a reply with a success status that decodes to \<open>data\<close>.\<close>

definition search_brave_attempt ::
  "validators \<Rightarrow> WebSearchTool \<Rightarrow> string \<Rightarrow> (http_request \<Rightarrow> fetch) \<Rightarrow>
   search_error + SearchResults list \<times> log_line list" where
  "search_brave_attempt V self query send =
     (case brave_api_key self of
        None \<Rightarrow> Inl BraveKeyNotSet
      | Some key \<Rightarrow>
         if key = [] then Inl BraveKeyNotSet
         else
          (case send (brave_request key query) of
             Raises e \<Rightarrow> Inl (brave_except e)
           | Body data \<Rightarrow>
              (case brave_results V data of
                 Inl e \<Rightarrow> Inl (brave_except e)
               | Inr r \<Rightarrow> Inr r)))"

text \<open>
  \<^verbatim>\<open>await x\<close> where \<open>x\<close> is what a synchronous method returned. Lines 149-150 of
  \<^verbatim>\<open>search_searxng\<close> are \<^verbatim>\<open>await response.raise_for_status()\<close> and
  \<^verbatim>\<open>data = await response.json()\<close>; both methods of the HTTP library's response are
  synchronous (\<^verbatim>\<open>search_brave\<close> calls them without \<^verbatim>\<open>await\<close>, lines 73-74), so what
  they return is not awaitable and the \<^verbatim>\<open>await\<close> raises \<^verbatim>\<open>TypeError\<close>.
\<close>

definition await_sync :: "'a \<Rightarrow> py_exn + 'a" where
  "await_sync x = Inl TypeError"

text \<open>
  The body of \<^verbatim>\<open>search_searxng\<close>, lines 133-173, run once. \<open>Raises e\<close> is an exception of
  \<^verbatim>\<open>client.get\<close> or of \<^verbatim>\<open>raise_for_status()\<close> itself; on a reply with a success status
  the \<^verbatim>\<open>await\<close> of line 149 comes next, and the loop of lines 152-164 follows it.
\<close>

definition search_searxng_attempt ::
  "validators \<Rightarrow> WebSearchTool \<Rightarrow> string \<Rightarrow> (http_request \<Rightarrow> fetch) \<Rightarrow>
   search_error + SearchResults list \<times> log_line list" where
  "search_searxng_attempt V self query send =
     (case searxng_base_url self of
        None \<Rightarrow> Inl SearXNGUrlNotSet
      | Some base \<Rightarrow>
         if base = [] then Inl SearXNGUrlNotSet
         else
          (case send (searxng_request base query) of
             Raises e \<Rightarrow> Inl (searxng_except e)
           | Body data \<Rightarrow>
              (case await_sync () of
                 Inl e \<Rightarrow> Inl (searxng_except e)
               | Inr u \<Rightarrow>
                  (case await_sync data of
                     Inl e \<Rightarrow> Inl (searxng_except e)
                   | Inr data' \<Rightarrow>
                      (case searxng_results V data' of
                         Inl e \<Rightarrow> Inl (searxng_except e)
                       | Inr r \<Rightarrow> Inr r)))))"

subsection \<open>The retry decorator\<close>

text \<open>
  \<^verbatim>\<open>@retry(stop=stop_after_attempt(3), wait=wait_exponential(multiplier=1, min=4, max=10),
         reraise=True)\<close>
  The library's \<^verbatim>\<open>wait_exponential\<close> computes, after attempt number \<open>n\<close> (counted from 1),
  \<^verbatim>\<open>max(max(0, min), min(multiplier * 2 ** (n - 1), max))\<close>.
\<close>

definition wait_exponential :: "nat \<Rightarrow> nat \<Rightarrow> nat \<Rightarrow> nat \<Rightarrow> nat" where
  "wait_exponential multiplier mn mx attempt_number =
     max (max 0 mn) (min (multiplier * 2 ^ (attempt_number - 1)) mx)"

text \<open>
  The retry loop: call the function; a result is returned at once; after an exception,
  stop when the attempt number has reached the limit and re-raise that exception
  (\<^verbatim>\<open>reraise=True\<close>), else sleep and call again. \<open>fn n\<close> is the outcome of the \<open>n\<close>-th call.
  The loop returns the outcome, the number of calls made and the sleeps in order.
\<close>

function retry_loop ::
  "nat \<Rightarrow> (nat \<Rightarrow> nat) \<Rightarrow> (nat \<Rightarrow> 'e + 'a) \<Rightarrow> nat \<Rightarrow> nat list \<Rightarrow> ('e + 'a) \<times> nat \<times> nat list" where
  "retry_loop stop wait fn attempt_number slept =
     (case fn attempt_number of
        Inr r \<Rightarrow> (Inr r, attempt_number, slept)
      | Inl e \<Rightarrow>
         if attempt_number \<ge> stop then (Inl e, attempt_number, slept)
         else retry_loop stop wait fn (Suc attempt_number) (slept @ [wait attempt_number]))"
  by pat_completeness auto
termination
  by (relation "measure (\<lambda>(stop, wait, fn, n, slept). stop - n)") auto

declare retry_loop.simps [simp del]

definition retry :: "(nat \<Rightarrow> 'e + 'a) \<Rightarrow> ('e + 'a) \<times> nat \<times> nat list" where
  "retry fn = retry_loop 3 (wait_exponential 1 4 10) fn 1 []"

text \<open>The decorated methods; \<open>transport n\<close> is the exchange of the \<open>n\<close>-th attempt.\<close>

type_synonym transport = "nat \<Rightarrow> http_request \<Rightarrow> fetch"

definition search_brave ::
  "validators \<Rightarrow> WebSearchTool \<Rightarrow> string \<Rightarrow> transport \<Rightarrow>
   (search_error + SearchResults list \<times> log_line list) \<times> nat \<times> nat list" where
  "search_brave V self query transport =
     retry (\<lambda>n. search_brave_attempt V self query (transport n))"

definition search_searxng ::
  "validators \<Rightarrow> WebSearchTool \<Rightarrow> string \<Rightarrow> transport \<Rightarrow>
   (search_error + SearchResults list \<times> log_line list) \<times> nat \<times> nat list" where
  "search_searxng V self query transport =
     retry (\<lambda>n. search_searxng_attempt V self query (transport n))"

subsection \<open>Dispatch\<close>

text \<open>
  \<^verbatim>\<open>WebSearchTool.search\<close>, lines 188-214, with what it prints. The methods it calls raise
  nothing but \<^verbatim>\<open>SearchError\<close>, which line 207 re-raises as it is.
\<close>

definition search ::
  "validators \<Rightarrow> WebSearchTool \<Rightarrow> string \<Rightarrow> transport \<Rightarrow>
   (search_error + SearchResults list) \<times> log_line list" where
  "search V self query transport =
     (if provider self = [] then
        (Inl NoProviderInSearch, [DebugStartingSearch (provider self), ErrorNoProvider])
      else
        (case (if provider self = ''brave''
               then (DebugUsingBrave, fst (search_brave V self query transport))
               else (DebugUsingSearXNG, fst (search_searxng V self query transport))) of
           (using, Inr (results, warnings)) \<Rightarrow>
             (Inr results,
              [DebugStartingSearch (provider self), using] @ warnings @
              [DebugReturned (length results)])
         | (using, Inl e) \<Rightarrow>
             (Inl e, [DebugStartingSearch (provider self), using, ErrorSearchFailed e])))"

section \<open>LLMService\<close>




record openai_client =
  api_key :: string
  base_url :: string

record LLMService =
  llm_provider :: string
  model :: string
  openai_api_key :: string
  openai_base_url :: string
  ollama_base_url :: string
  client :: "openai_client option"


text \<open>\<^verbatim>\<open>LLMService.generate\<close>, lines 34-39: which backend receives the prompt.\<close>

datatype backend_call = GenerateOpenAI string nat | GenerateOllama string nat

definition generate :: "LLMService \<Rightarrow> string \<Rightarrow> nat \<Rightarrow> backend_call" where
  "generate self prompt max_tokens =
     (if llm_provider self = ''openai'' then GenerateOpenAI prompt max_tokens
      else GenerateOllama prompt max_tokens)"

section \<open>Prompts\<close>

text \<open>\<^verbatim>\<open>str(n)\<close> for a number that is not negative.\<close>

definition digit_char :: "nat \<Rightarrow> char" where
  "digit_char d = char_of (of_char CHR ''0'' + d)"

fun str_nat :: "nat \<Rightarrow> string" where
  "str_nat n =
     (if n < 10 then [digit_char n] else str_nat (n div 10) @ [digit_char (n mod 10)])"

declare str_nat.simps [simp del]

text \<open>\<^verbatim>\<open>sep.join(parts)\<close>.\<close>

fun py_join :: "string \<Rightarrow> string list \<Rightarrow> string" where
  "py_join sep [] = []"
| "py_join sep [x] = x"
| "py_join sep (x # y # ys) = x @ sep @ py_join sep (y # ys)"

text \<open>\<^verbatim>\<open>res[key]\<close> on a search result, a dict from strings to strings.\<close>

type_synonym result_dict = "(string \<times> string) list"

definition getitem :: "result_dict \<Rightarrow> string \<Rightarrow> py_exn + string" where
  "getitem res k = (case map_of res k of Some v \<Rightarrow> Inr v | None \<Rightarrow> Inl (KeyError k))"

text \<open>The f-string of line 88 for one pair of \<^verbatim>\<open>enumerate(search_results)\<close>.\<close>

definition format_source :: "nat \<times> result_dict \<Rightarrow> py_exn + string" where
  "format_source p =
     (case p of (i, res) \<Rightarrow>
        (case getitem res ''title'' of
           Inl e \<Rightarrow> Inl e
         | Inr t \<Rightarrow>
            (case getitem res ''url'' of
               Inl e \<Rightarrow> Inl e
             | Inr u \<Rightarrow>
                (case getitem res ''snippet'' of
                   Inl e \<Rightarrow> Inl e
                 | Inr s \<Rightarrow>
                    Inr (''Source '' @ str_nat (i + 1) @ '': '' @ t @
                         ''\<newline>URL: '' @ u @ ''\<newline>Content: '' @ s)))))"

text \<open>The generator expression as \<^verbatim>\<open>join\<close> consumes it: the first exception ends it.\<close>

fun generate_all :: "('a \<Rightarrow> py_exn + 'b) \<Rightarrow> 'a list \<Rightarrow> py_exn + 'b list" where
  "generate_all f [] = Inr []"
| "generate_all f (x # xs) =
     (case f x of
        Inl e \<Rightarrow> Inl e
      | Inr y \<Rightarrow> (case generate_all f xs of Inl e \<Rightarrow> Inl e | Inr ys \<Rightarrow> Inr (y # ys)))"

definition web_context :: "result_dict list \<Rightarrow> py_exn + string" where
  "web_context search_results =
     (case generate_all format_source (enumerate 0 search_results) of
        Inl e \<Rightarrow> Inl e
      | Inr blocks \<Rightarrow> Inr (py_join ''\<newline>\<newline>'' blocks))"

text \<open>The prompt of \<^verbatim>\<open>generate_web_aware_response\<close>, lines 92-105.\<close>

definition web_prompt :: "string \<Rightarrow> string \<Rightarrow> string" where
  "web_prompt query context =
     ''\<newline>    You are a helpful AI assistant that can answer questions using web search results.'' @
     ''\<newline>    \<newline>    User's question: '' @ query @
     ''\<newline>    \<newline>    Here are some relevant search results:\<newline>    '' @ context @
     ''\<newline>    \<newline>    Based on the above information, please provide a clear and concise answer to the user's question.'' @
     ''\<newline>    If the search results don't contain enough information to answer the question, please say so.'' @
     ''\<newline>    Include relevant source numbers (e.g., [1], [2]) to cite your information.'' @
     ''\<newline>    \<newline>    Answer:\<newline>    ''"

definition generate_web_aware_response ::
  "LLMService \<Rightarrow> string \<Rightarrow> result_dict list \<Rightarrow> py_exn + backend_call" where
  "generate_web_aware_response llm_service query search_results =
     (case web_context search_results of
        Inl e \<Rightarrow> Inl e
      | Inr context \<Rightarrow> Inr (generate llm_service (web_prompt query context) 1024))"

text \<open>The prompt of the other branch of \<^verbatim>\<open>get_ai_response\<close>, line 231.\<close>

definition plain_prompt :: "string \<Rightarrow> string" where
  "plain_prompt query = ''User: '' @ query @ ''\<newline>\<newline>Assistant:''"

text \<open>\<^verbatim>\<open>get_ai_response\<close>, lines 226-231; \<open>None\<close> is the default argument.\<close>

definition get_ai_response ::
  "LLMService \<Rightarrow> string \<Rightarrow> result_dict list option \<Rightarrow> py_exn + backend_call" where
  "get_ai_response llm_service query search_results =
     (case search_results of
        None \<Rightarrow> Inr (generate llm_service (plain_prompt query) 1024)
      | Some rs \<Rightarrow>
         if rs \<noteq> [] \<and> length rs > 0 then generate_web_aware_response llm_service query rs
         else Inr (generate llm_service (plain_prompt query) 1024))"

section \<open>The prompt as the specification words it\<close>

text \<open>
  The specification's context block: one paragraph for each result,
  \<^verbatim>\<open>Source {index}: {title}\<close>, \<^verbatim>\<open>URL: {url}\<close>, \<^verbatim>\<open>Content: {snippet}\<close>, the index
  counting up from its start value in input order. These definitions follow the
  specification; the theorems compare them with \<open>web_context\<close>.
\<close>

definition field :: "result_dict \<Rightarrow> string \<Rightarrow> string" where
  "field res k = (case map_of res k of Some v \<Rightarrow> v | None \<Rightarrow> [])"

definition complete_result :: "result_dict \<Rightarrow> bool" where
  "complete_result res =
     (map_of res ''title'' \<noteq> None \<and> map_of res ''url'' \<noteq> None \<and> map_of res ''snippet'' \<noteq> None)"

definition source_block :: "nat \<Rightarrow> result_dict \<Rightarrow> string" where
  "source_block index res =
     ''Source '' @ str_nat index @ '': '' @ field res ''title'' @
     ''\<newline>URL: '' @ field res ''url'' @ ''\<newline>Content: '' @ field res ''snippet''"

fun numbered_blocks :: "nat \<Rightarrow> result_dict list \<Rightarrow> string list" where
  "numbered_blocks index [] = []"
| "numbered_blocks index (res # rest) = source_block index res # numbered_blocks (index + 1) rest"

text \<open>Reading a decimal numeral back, to tell the source numbers apart.\<close>

definition digit_value :: "char \<Rightarrow> nat" where
  "digit_value c = of_char c - of_char CHR ''0''"

definition nat_of_str :: "string \<Rightarrow> nat" where
  "nat_of_str s = foldl (\<lambda>acc c. 10 * acc + digit_value c) 0 s"

text \<open>The citation marker the web prompt asks the model to use for source \<open>n\<close>.\<close>

definition citation_marker :: "nat \<Rightarrow> string" where
  "citation_marker n = ''['' @ str_nat n @ '']''"

section \<open>Concrete inputs\<close>

text \<open>The environment of the test fixture \<^verbatim>\<open>mock_env\<close>, and smaller ones.\<close>

definition env_both :: environ where
  "env_both = map_of [(''BRAVE_API_KEY'', ''test-brave-key''),
                      (''SEARXNG_BASE_URL'', ''http://test-searxng-instance'')]"

definition env_searxng_only :: environ where
  "env_searxng_only = map_of [(''SEARXNG_BASE_URL'', ''http://test-searxng-instance'')]"

definition env_empty :: environ where
  "env_empty = map_of []"

definition tool_both :: WebSearchTool where
  "tool_both = \<lparr>brave_api_key = Some ''test-brave-key'',
                 searxng_base_url = Some ''http://test-searxng-instance'',
                 provider = ''brave''\<rparr>"

text \<open>Upstream items: one with the score 0.8 (bit pattern 3FE999999999999A), one whose
  score is null, one without the key, one that is not a dict and one with no field at
  all.\<close>

definition item_scored :: json where
  "item_scored = JObj [(''title'', JStr ''Rover Update''), (''url'', JStr ''https://x''),
                       (''description'', JStr ''New findings''), (''content'', JStr ''New findings''),
                       (''score'', JFloat 0x3FE999999999999A)]"

definition item_null_score :: json where
  "item_null_score = JObj [(''title'', JStr ''Test Page''), (''url'', JStr ''https://test.com''),
                           (''description'', JStr ''Test snippet''), (''score'', JNull)]"

definition item_no_score :: json where
  "item_no_score = JObj [(''title'', JStr ''Test Page''), (''url'', JStr ''https://test.com''),
                         (''description'', JStr ''Test snippet'')]"

definition item_not_a_dict :: json where
  "item_not_a_dict = JStr ''garbage''"

definition item_no_fields :: json where
  "item_no_fields = JObj []"

definition result_defaults :: SearchResults where
  "result_defaults = \<lparr>title = [], url = [], snippet = [], score = Some 0\<rparr>"

definition result_scored :: SearchResults where
  "result_scored = \<lparr>title = ''Rover Update'', url = ''https://x'', snippet = ''New findings'',
                     score = Some 0x3FE999999999999A\<rparr>"

definition result_unscored :: SearchResults where
  "result_unscored = \<lparr>title = ''Rover Update'', url = ''https://x'', snippet = ''New findings'',
                       score = None\<rparr>"

definition result_default_score :: SearchResults where
  "result_default_score = \<lparr>title = ''Test Page'', url = ''https://test.com'',
                            snippet = ''Test snippet'', score = Some 0\<rparr>"

definition brave_body :: "json list \<Rightarrow> json" where
  "brave_body items = JObj [(''web'', JObj [(''results'', JArr items)])]"

definition searxng_body :: "json list \<Rightarrow> json" where
  "searxng_body items = JObj [(''results'', JArr items)]"

text \<open>Transports: one that answers every attempt alike, one that raises on the first two
  attempts and answers the third.\<close>

definition always :: "fetch \<Rightarrow> transport" where
  "always f n req = f"

definition fails_twice_then :: "py_exn \<Rightarrow> json \<Rightarrow> transport" where
  "fails_twice_then e data n req = (if n < 3 then Raises e else Body data)"



definition service_unknown_llm :: LLMService where
  "service_unknown_llm =
     \<lparr>llm_provider = ''gemini'', model = ''qwen2.5:7b'', openai_api_key = [],
      openai_base_url = ''https://api.openai.com/v1'',
      ollama_base_url = ''http://localhost:11434'', client = None\<rparr>"

text \<open>Two search results as \<^verbatim>\<open>server.py\<close> sends them.\<close>

definition dict_r1 :: result_dict where
  "dict_r1 = [(''title'', ''Rover Update''), (''url'', ''https://x''), (''snippet'', ''New findings'')]"

definition dict_r2 :: result_dict where
  "dict_r2 = [(''title'', ''Mars''), (''url'', ''https://y''), (''snippet'', ''Red planet'')]"

section \<open>Facts about the loops, the attempts and the retry\<close>

lemma result_loop_closed:
  "result_loop build warn items (rs, out) =
     (rs @ map (projr \<circ> build) (filter (\<lambda>i. \<not> isl (build i)) items),
      out @ map (warn \<circ> projl \<circ> build) (filter (\<lambda>i. isl (build i)) items))"
  by (induction items arbitrary: rs out) (auto split: sum.splits)

lemma brave_results_nested:
  assumes "map_of d ''web'' = Some (JObj w)" and "map_of w ''results'' = Some (JArr items)"
  shows "brave_results V (JObj d) = Inr (result_loop (brave_item V) WarnBrave items ([], []))"
  using assms by (simp add: brave_results_def)

lemma brave_results_fallback:
  assumes "map_of d ''web'' = None \<or>
           (\<exists>w. map_of d ''web'' = Some (JObj w) \<and> map_of w ''results'' = None)"
    and "map_of d ''results'' = Some (JArr items)"
  shows "brave_results V (JObj d) =
           Inr (result_loop (brave_item V) WarnBraveFallback items ([], []))"
  using assms by (auto simp: brave_results_def)

lemma retry_loop_outcome:
  "retry_loop stop wait fn n sl = (out, k, sl') \<Longrightarrow> out = fn k \<and> n \<le> k"
proof (induction stop wait fn n sl rule: retry_loop.induct)
  case (1 stop wait fn n sl)
  show ?case
  proof (cases "fn n")
    case (Inr r)
    with "1.prems" show ?thesis by (simp add: retry_loop.simps)
  next
    case (Inl e)
    show ?thesis
    proof (cases "n \<ge> stop")
      case True
      with Inl "1.prems" show ?thesis by (simp add: retry_loop.simps)
    next
      case False
      with Inl "1.prems" have "retry_loop stop wait fn (Suc n) (sl @ [wait n]) = (out, k, sl')"
        by (simp add: retry_loop.simps)
      with "1.IH"[OF Inl] False show ?thesis by auto
    qed
  qed
qed

lemma retry_outcome: "retry fn = (out, k, sl) \<Longrightarrow> out = fn k"
  unfolding retry_def by (drule retry_loop_outcome) simp

lemma retry_first:
  "fn 1 = Inr r \<Longrightarrow> retry fn = (Inr r, 1, [])"
  by (simp add: retry_def retry_loop.simps)

lemma retry_second:
  "isl (fn 1) \<Longrightarrow> fn 2 = Inr r \<Longrightarrow> retry fn = (Inr r, 2, [4])"
  by (cases "fn 1")
     (simp_all add: retry_def retry_loop.simps[of _ _ _ "Suc 0"]
        retry_loop.simps[of _ _ _ "Suc (Suc 0)"] wait_exponential_def numeral_2_eq_2)

lemma retry_third:
  "isl (fn 1) \<Longrightarrow> isl (fn 2) \<Longrightarrow> retry fn = (fn 3, 3, [4, 4])"
  by (cases "fn 1"; cases "fn 2"; cases "fn 3")
     (simp_all add: retry_def retry_loop.simps[of _ _ _ "Suc 0"]
        retry_loop.simps[of _ _ _ "Suc (Suc 0)"] retry_loop.simps[of _ _ _ "Suc (Suc (Suc 0))"]
        wait_exponential_def numeral_2_eq_2 numeral_3_eq_3)

lemma retry_reply:
  assumes "n = 1 \<or> n = 2 \<or> n = 3" and "\<forall>m. 1 \<le> m \<and> m < n \<longrightarrow> isl (fn m)" and "fn n = Inr r"
  shows "retry fn = (Inr r, n, replicate (n - 1) 4)"
proof -
  consider "n = 1" | "n = 2" | "n = 3" using assms(1) by blast
  then show ?thesis
  proof cases
    case 1
    with assms(3) show ?thesis by (simp add: retry_first)
  next
    case 2
    with assms(2) have "isl (fn 1)" by simp
    with 2 assms(3) show ?thesis by (simp add: retry_second)
  next
    case 3
    with assms(2) have "isl (fn 1)" "isl (fn 2)" by simp_all
    from retry_third[OF this] 3 assms(3) show ?thesis
      by (simp add: numeral_2_eq_2)
  qed
qed

lemma result_loop_length:
  "result_loop build warn items ([], []) = (rs, ws) \<Longrightarrow>
     length rs = length (filter (\<lambda>i. \<not> isl (build i)) items) \<and>
     length ws = length (filter (\<lambda>i. isl (build i)) items) \<and>
     length rs + length ws = length items"
  using sum_length_filter_compl[of "\<lambda>i. isl (build i)" items]
  by (auto simp: result_loop_closed)

lemma search_brave_attempt_body:
  assumes "brave_api_key self = Some key" and "key \<noteq> []"
    and "send (brave_request key q) = Body data"
  shows "search_brave_attempt V self q send =
          (case brave_results V data of Inl e \<Rightarrow> Inl (brave_except e) | Inr r \<Rightarrow> Inr r)"
  using assms by (simp add: search_brave_attempt_def)

lemma search_brave_attempt_raises:
  assumes "brave_api_key self = Some key" and "key \<noteq> []"
    and "send (brave_request key q) = Raises e"
  shows "search_brave_attempt V self q send = Inl (brave_except e)"
  using assms by (simp add: search_brave_attempt_def)

lemma search_searxng_attempt_raises:
  assumes "searxng_base_url self = Some base" and "base \<noteq> []"
    and "send (searxng_request base q) = Raises e"
  shows "search_searxng_attempt V self q send = Inl (searxng_except e)"
  using assms by (simp add: search_searxng_attempt_def)

lemma search_searxng_attempt_fails: "isl (search_searxng_attempt V self q send)"
  by (simp add: search_searxng_attempt_def await_sync_def split: option.splits fetch.splits)

lemma brave_except_not_dispatch [simp]: "brave_except e \<noteq> NoProviderInSearch"
  by (cases e) simp_all

lemma searxng_except_not_dispatch [simp]: "searxng_except e \<noteq> NoProviderInSearch"
  by (cases e) simp_all

lemma search_brave_attempt_error:
  "search_brave_attempt V self q send \<noteq> Inl NoProviderInSearch"
  by (auto simp: search_brave_attempt_def split: option.splits if_splits fetch.splits sum.splits)

lemma search_searxng_attempt_error:
  "search_searxng_attempt V self q send \<noteq> Inl NoProviderInSearch"
  by (auto simp: search_searxng_attempt_def await_sync_def
      split: option.splits if_splits fetch.splits sum.splits)

lemma search_brave_reply:
  assumes "brave_api_key self = Some key" and "key \<noteq> []"
    and "n = 1 \<or> n = 2 \<or> n = 3"
    and "\<forall>m. 1 \<le> m \<and> m < n \<longrightarrow> (\<exists>e. T m (brave_request key q) = Raises e)"
    and "T n (brave_request key q) = Body data"
    and "brave_results V data = Inr res"
  shows "search_brave V self q T = (Inr res, n, replicate (n - 1) 4)"
proof -
  have early: "\<forall>m. 1 \<le> m \<and> m < n \<longrightarrow> isl (search_brave_attempt V self q (T m))"
  proof (intro allI impI)
    fix m assume "1 \<le> m \<and> m < n"
    with assms(4) obtain e where "T m (brave_request key q) = Raises e" by blast
    with assms(1,2) show "isl (search_brave_attempt V self q (T m))"
      by (simp add: search_brave_attempt_raises)
  qed
  from assms(1,2,5,6) have "search_brave_attempt V self q (T n) = Inr res"
    by (simp add: search_brave_attempt_body[where data = data])
  with assms(3) early show ?thesis
    unfolding search_brave_def by (intro retry_reply) simp_all
qed

lemma search_brave_returned:
  assumes "search_brave V self q T = (Inr res, n, sl)"
    and "brave_api_key self = Some key" and "T n (brave_request key q) = Body data"
  shows "brave_results V data = Inr res"
proof -
  from assms(1) have "Inr res = search_brave_attempt V self q (T n)"
    unfolding search_brave_def by (rule retry_outcome)
  with assms(2,3) show ?thesis
    by (auto simp: search_brave_attempt_def split: if_splits sum.splits)
qed

section \<open>Facts about lower-casing, numerals and substrings\<close>



lemma format_source_complete:
  "complete_result res \<Longrightarrow> format_source (i, res) = Inr (source_block (i + 1) res)"
  by (auto simp: complete_result_def format_source_def getitem_def source_block_def field_def)

lemma generate_all_format_source:
  "\<forall>res \<in> set results. complete_result res \<Longrightarrow>
     generate_all format_source (enumerate n results) = Inr (numbered_blocks (n + 1) results)"
  by (induction results arbitrary: n) (simp_all add: format_source_complete)

lemma length_numbered_blocks: "length (numbered_blocks n results) = length results"
  by (induction results arbitrary: n) simp_all

lemma nth_numbered_blocks:
  "k < length results \<Longrightarrow> numbered_blocks n results ! k = source_block (n + k) (results ! k)"
proof (induction results arbitrary: n k)
  case Nil
  then show ?case by simp
next
  case (Cons res rest)
  show ?case
  proof (cases k)
    case 0
    then show ?thesis by simp
  next
    case (Suc j)
    with Cons.prems have "j < length rest" by simp
    from Cons.IH[OF this, of "n + 1"] Suc show ?thesis by simp
  qed
qed

lemma digit_value_digit_char: "d < 10 \<Longrightarrow> digit_value (digit_char d) = d"
  by (simp add: digit_value_def digit_char_def)

lemma nat_of_str_snoc: "nat_of_str (s @ [c]) = 10 * nat_of_str s + digit_value c"
  by (simp add: nat_of_str_def)

lemma nat_of_str_str_nat: "nat_of_str (str_nat n) = n"
proof (induction n rule: str_nat.induct)
  case (1 n)
  show ?case
  proof (cases "n < 10")
    case True
    then show ?thesis
      by (simp add: str_nat.simps[of n] nat_of_str_def digit_value_digit_char)
  next
    case False
    with "1.IH" have "nat_of_str (str_nat (n div 10)) = n div 10" by simp
    with False show ?thesis
      by (simp add: str_nat.simps[of n] nat_of_str_snoc digit_value_digit_char)
  qed
qed

lemma str_nat_inject: "str_nat j = str_nat k \<Longrightarrow> j = k"
  by (metis nat_of_str_str_nat)

lemma append_eq_longer_front:
  "p @ r = a @ s \<Longrightarrow> length p \<le> length a \<Longrightarrow> \<exists>a'. a = p @ a' \<and> r = a' @ s"
  by (auto simp: append_eq_append_conv2)

lemma append_eq_longer_rear:
  "r @ t = s @ b \<Longrightarrow> length t \<le> length b \<Longrightarrow> \<exists>b'. b = b' @ t \<and> r = s @ b'"
  by (auto simp: append_eq_append_conv2)

lemma sublist_between:
  assumes "xs \<noteq> []" and "hd xs \<notin> set p" and "last xs \<notin> set t"
  shows "sublist xs (p @ q @ t) \<longleftrightarrow> sublist xs q"
proof
  assume "sublist xs q"
  then obtain ps ss where "q = ps @ xs @ ss"
    by (auto simp: sublist_def)
  then have "p @ q @ t = (p @ ps) @ xs @ (ss @ t)" by simp
  then show "sublist xs (p @ q @ t)"
    unfolding sublist_def by blast
next
  assume "sublist xs (p @ q @ t)"
  then obtain a b where eq: "p @ q @ t = a @ xs @ b"
    by (auto simp: sublist_def)
  have front: "length p \<le> length a"
  proof (rule ccontr)
    assume "\<not> length p \<le> length a"
    then have lt: "length a < length p" by simp
    have "(p @ q @ t) ! length a = p ! length a" using lt by (simp add: nth_append)
    moreover have "(a @ xs @ b) ! length a = hd xs"
      using assms(1) by (simp add: nth_append hd_conv_nth)
    ultimately have "hd xs = p ! length a" using eq by simp
    with lt assms(2) show False by simp
  qed
  from append_eq_longer_front[OF eq front]
  obtain a' where a: "a = p @ a'" and eq2: "q @ t = a' @ xs @ b" by blast
  have rear: "length t \<le> length b"
  proof (rule ccontr)
    assume "\<not> length t \<le> length b"
    then have lt: "length b < length t" by simp
    from eq2 have len: "length q + length t = length a' + length xs + length b"
      by (metis length_append add.assoc)
    define k where "k = length a' + (length xs - 1)"
    from assms(1) have xpos: "0 < length xs" by simp
    from len lt xpos have kq: "length q \<le> k" unfolding k_def by linarith
    from len lt xpos have kt: "k - length q < length t" unfolding k_def by linarith
    have "(q @ t) ! k = t ! (k - length q)" using kq by (simp add: nth_append)
    moreover have "(a' @ xs @ b) ! k = (xs @ b) ! (length xs - 1)"
      unfolding k_def by (rule nth_append_length_plus)
    moreover have "(xs @ b) ! (length xs - 1) = xs ! (length xs - 1)"
      using xpos by (simp add: nth_append)
    moreover have "xs ! (length xs - 1) = last xs"
      using assms(1) by (simp add: last_conv_nth)
    ultimately have "last xs = t ! (k - length q)" using eq2 by simp
    with kt assms(3) show False by simp
  qed
  have "(q @ t) = (a' @ xs) @ b" using eq2 by simp
  from append_eq_longer_rear[OF this rear]
  obtain b' where "q = (a' @ xs) @ b'" by blast
  then have "q = a' @ xs @ b'" by simp
  then show "sublist xs q"
    unfolding sublist_def by blast
qed

lemma sublist_append_left: "sublist xs ys \<Longrightarrow> sublist xs (ys @ zs)"
  by (simp add: sublist_append)

lemma sublist_append_right: "sublist xs zs \<Longrightarrow> sublist xs (ys @ zs)"
  by (simp add: sublist_append)

lemma sublist_py_join: "x \<in> set xs \<Longrightarrow> sublist x (py_join sep xs)"
proof (induction sep xs rule: py_join.induct)
  case (1 sep)
  then show ?case by simp
next
  case (2 sep y)
  then show ?case by simp
next
  case (3 sep y z zs)
  show ?case
  proof (cases "x = y")
    case True
    then show ?thesis by simp
  next
    case False
    with "3.prems" have "x \<in> set (z # zs)" by simp
    then have "sublist x (py_join sep (z # zs))" by (rule "3.IH")
    then show ?thesis by (simp add: sublist_append_right)
  qed
qed

lemma sublist_web_prompt_context: "sublist context (web_prompt query context)"
  unfolding web_prompt_def
  by (intro sublist_append_right sublist_append_rightI)

lemma sublist_web_prompt_query: "sublist query (web_prompt query context)"
  unfolding web_prompt_def
  by (intro sublist_append_right sublist_append_rightI)

lemma sublist_trans_list: "sublist xs ys \<Longrightarrow> sublist ys zs \<Longrightarrow> sublist xs zs"
  by (rule sublist_order.order_trans)

section \<open>Result count\<close>

text \<open>
  C1, as stated: a provider call never returns more than five results. It fails: six
  well-formed items in \<^verbatim>\<open>web.results\<close> give six results.
\<close>

theorem result_count_counterexample:
  "search_brave strict_validators tool_both ''q''
      (always (Body (brave_body [item_scored, item_scored, item_scored,
                                 item_scored, item_scored, item_scored]))) =
     (Inr ([result_scored, result_scored, result_scored,
            result_scored, result_scored, result_scored], []), 1, [])
   \<and> \<not> length [result_scored, result_scored, result_scored,
                result_scored, result_scored, result_scored] \<le> 5"
  by (simp add: search_brave_def retry_first search_brave_attempt_def tool_both_def always_def
      brave_body_def brave_results_def item_scored_def result_scored_def
      SearchResults_init_def)

text \<open>
  C1, amended: both variants ask the upstream for five results, with the request parameter
  \<^verbatim>\<open>count=5\<close> (Variant A) or \<^verbatim>\<open>num=5\<close> (Variant B), and the code does not truncate the
  reply. Whenever \<^verbatim>\<open>search_brave\<close> returns a list, on whichever attempt the reply came, the
  list holds the results of the upstream items that validate, in upstream order, the
  upstream array being \<^verbatim>\<open>web.results\<close> when it is there and the top-level \<^verbatim>\<open>results\<close>
  otherwise; so the list is no longer than the upstream array, and \<open>n\<close> well-formed items
  give exactly \<open>n\<close> results. A reply on the first, second or third attempt does make the
  call return that list.
\<close>

theorem result_count:
  "req_params (brave_request key q) = [(''q'', q), (''count'', ''5'')]
   \<and>
   req_params (searxng_request base q) =
     [(''q'', q), (''format'', ''json''), (''language'', ''en-US''), (''num'', ''5'')]
   \<and>
   (search_brave V self q T = (Inr (rs, ws), n, sl) \<and> brave_api_key self = Some key \<and>
    T n (brave_request key q) = Body (JObj d) \<and>
    map_of d ''web'' = Some (JObj w) \<and> map_of w ''results'' = Some (JArr items) \<longrightarrow>
      rs = map (projr \<circ> brave_item V) (filter (\<lambda>i. \<not> isl (brave_item V i)) items) \<and>
      length rs \<le> length items \<and>
      ((\<forall>i \<in> set items. \<not> isl (brave_item V i)) \<longrightarrow> length rs = length items))
   \<and>
   (search_brave V self q T2 = (Inr (rs2, ws2), n2, sl2) \<and> brave_api_key self = Some key \<and>
    T2 n2 (brave_request key q) = Body (JObj d2) \<and>
    (map_of d2 ''web'' = None \<or>
     (\<exists>w2. map_of d2 ''web'' = Some (JObj w2) \<and> map_of w2 ''results'' = None)) \<and>
    map_of d2 ''results'' = Some (JArr items2) \<longrightarrow>
      rs2 = map (projr \<circ> brave_item V) (filter (\<lambda>i. \<not> isl (brave_item V i)) items2) \<and>
      length rs2 \<le> length items2 \<and>
      ((\<forall>i \<in> set items2. \<not> isl (brave_item V i)) \<longrightarrow> length rs2 = length items2))
   \<and>
   (brave_api_key self = Some key \<and> key \<noteq> [] \<and> (n3 = 1 \<or> n3 = 2 \<or> n3 = 3) \<and>
    (\<forall>m. 1 \<le> m \<and> m < n3 \<longrightarrow> (\<exists>e. T3 m (brave_request key q) = Raises e)) \<and>
    T3 n3 (brave_request key q) = Body (JObj d3) \<and>
    map_of d3 ''web'' = Some (JObj w3) \<and> map_of w3 ''results'' = Some (JArr items3) \<longrightarrow>
      (\<exists>ws3. search_brave V self q T3 =
         (Inr (map (projr \<circ> brave_item V) (filter (\<lambda>i. \<not> isl (brave_item V i)) items3), ws3),
          n3, replicate (n3 - 1) 4)))"
proof (intro conjI impI)
  show "req_params (brave_request key q) = [(''q'', q), (''count'', ''5'')]"
    by (simp add: brave_request_def)
  show "req_params (searxng_request base q) =
     [(''q'', q), (''format'', ''json''), (''language'', ''en-US''), (''num'', ''5'')]"
    by (simp add: searxng_request_def)
next
  assume h: "search_brave V self q T = (Inr (rs, ws), n, sl) \<and> brave_api_key self = Some key \<and>
    T n (brave_request key q) = Body (JObj d) \<and>
    map_of d ''web'' = Some (JObj w) \<and> map_of w ''results'' = Some (JArr items)"
  then have "brave_results V (JObj d) = Inr (rs, ws)"
    using search_brave_returned by blast
  with h have loop: "result_loop (brave_item V) WarnBrave items ([], []) = (rs, ws)"
    by (simp add: brave_results_nested)
  then show "rs = map (projr \<circ> brave_item V) (filter (\<lambda>i. \<not> isl (brave_item V i)) items)"
    by (simp add: result_loop_closed)
  from result_loop_length[OF loop]
  have len: "length rs = length (filter (\<lambda>i. \<not> isl (brave_item V i)) items)" by simp
  then show "length rs \<le> length items" by simp
  from len show "length rs = length items" if "\<forall>i \<in> set items. \<not> isl (brave_item V i)"
    using that by simp
next
  assume h: "search_brave V self q T2 = (Inr (rs2, ws2), n2, sl2) \<and>
    brave_api_key self = Some key \<and> T2 n2 (brave_request key q) = Body (JObj d2) \<and>
    (map_of d2 ''web'' = None \<or>
     (\<exists>w2. map_of d2 ''web'' = Some (JObj w2) \<and> map_of w2 ''results'' = None)) \<and>
    map_of d2 ''results'' = Some (JArr items2)"
  then have "brave_results V (JObj d2) = Inr (rs2, ws2)"
    using search_brave_returned by blast
  moreover from h have "brave_results V (JObj d2) =
      Inr (result_loop (brave_item V) WarnBraveFallback items2 ([], []))"
    by (intro brave_results_fallback) simp_all
  ultimately have loop: "result_loop (brave_item V) WarnBraveFallback items2 ([], []) = (rs2, ws2)"
    by simp
  then show "rs2 = map (projr \<circ> brave_item V) (filter (\<lambda>i. \<not> isl (brave_item V i)) items2)"
    by (simp add: result_loop_closed)
  from result_loop_length[OF loop]
  have len: "length rs2 = length (filter (\<lambda>i. \<not> isl (brave_item V i)) items2)" by simp
  then show "length rs2 \<le> length items2" by simp
  from len show "length rs2 = length items2" if "\<forall>i \<in> set items2. \<not> isl (brave_item V i)"
    using that by simp
next
  assume h: "brave_api_key self = Some key \<and> key \<noteq> [] \<and> (n3 = 1 \<or> n3 = 2 \<or> n3 = 3) \<and>
    (\<forall>m. 1 \<le> m \<and> m < n3 \<longrightarrow> (\<exists>e. T3 m (brave_request key q) = Raises e)) \<and>
    T3 n3 (brave_request key q) = Body (JObj d3) \<and>
    map_of d3 ''web'' = Some (JObj w3) \<and> map_of w3 ''results'' = Some (JArr items3)"
  then have r: "brave_results V (JObj d3) =
      Inr (map (projr \<circ> brave_item V) (filter (\<lambda>i. \<not> isl (brave_item V i)) items3),
           map (WarnBrave \<circ> projl \<circ> brave_item V) (filter (\<lambda>i. isl (brave_item V i)) items3))"
    by (simp add: brave_results_nested result_loop_closed)
  from h have "search_brave V self q T3 =
      (Inr (map (projr \<circ> brave_item V) (filter (\<lambda>i. \<not> isl (brave_item V i)) items3),
            map (WarnBrave \<circ> projl \<circ> brave_item V) (filter (\<lambda>i. isl (brave_item V i)) items3)),
       n3, replicate (n3 - 1) 4)"
    by (intro search_brave_reply[where key = key and data = "JObj d3"] r) simp_all
  then show "\<exists>ws3. search_brave V self q T3 =
         (Inr (map (projr \<circ> brave_item V) (filter (\<lambda>i. \<not> isl (brave_item V i)) items3), ws3),
          n3, replicate (n3 - 1) 4)"
    by blast
qed

theorem result_count_witness:
  "search_brave strict_validators tool_both ''q''
      (always (Body (brave_body [item_scored, item_not_a_dict, item_no_score]))) =
     (Inr ([result_scored, result_default_score], [WarnBrave AttributeError]), 1, [])
   \<and> length [result_scored, result_default_score]
       \<le> length [item_scored, item_not_a_dict, item_no_score]
   \<and> search_brave strict_validators tool_both ''q''
      (always (Body (searxng_body [item_scored, item_no_score]))) =
     (Inr ([result_scored, result_default_score], []), 1, [])
   \<and> length [result_scored, result_default_score] = length [item_scored, item_no_score]
   \<and> (\<exists>ws3. search_brave strict_validators tool_both ''q''
        (fails_twice_then TimeoutException (brave_body [item_scored, item_scored])) =
        (Inr ([result_scored, result_scored], ws3), 3, [4, 4]))
   \<and> req_params (brave_request ''test-brave-key'' ''q'') = [(''q'', ''q''), (''count'', ''5'')]"
proof -
  have b1: "brave_item strict_validators item_scored = Inr result_scored"
    by (simp add: item_scored_def result_scored_def SearchResults_init_def)
  have b2: "brave_item strict_validators item_not_a_dict = Inl AttributeError"
    by (simp add: item_not_a_dict_def)
  have b3: "brave_item strict_validators item_no_score = Inr result_default_score"
    by (simp add: item_no_score_def result_default_score_def SearchResults_init_def)
  have k: "brave_api_key tool_both = Some ''test-brave-key''"
    by (simp add: tool_both_def)
  have c1: "search_brave strict_validators tool_both ''q''
      (always (Body (brave_body [item_scored, item_not_a_dict, item_no_score]))) =
     (Inr ([result_scored, result_default_score], [WarnBrave AttributeError]), 1, [])"
    by (simp add: search_brave_def retry_first search_brave_attempt_def tool_both_def always_def
        brave_body_def brave_results_def b1 b2 b3)
  have c2: "search_brave strict_validators tool_both ''q''
      (always (Body (searxng_body [item_scored, item_no_score]))) =
     (Inr ([result_scored, result_default_score], []), 1, [])"
    by (simp add: search_brave_def retry_first search_brave_attempt_def tool_both_def always_def
        searxng_body_def brave_results_def b1 b3)
  note t = result_count[where V = strict_validators and self = tool_both and q = "''q''"
      and key = "''test-brave-key''" and base = "''http://test-searxng-instance''"
      and T = "always (Body (brave_body [item_scored, item_not_a_dict, item_no_score]))"
      and rs = "[result_scored, result_default_score]" and ws = "[WarnBrave AttributeError]"
      and n = 1 and sl = "[]"
      and d = "[(''web'', JObj [(''results'', JArr [item_scored, item_not_a_dict, item_no_score])])]"
      and w = "[(''results'', JArr [item_scored, item_not_a_dict, item_no_score])]"
      and items = "[item_scored, item_not_a_dict, item_no_score]"
      and ?T2.0 = "always (Body (searxng_body [item_scored, item_no_score]))"
      and ?rs2.0 = "[result_scored, result_default_score]" and ?ws2.0 = "[]"
      and ?n2.0 = 1 and ?sl2.0 = "[]"
      and ?d2.0 = "[(''results'', JArr [item_scored, item_no_score])]"
      and ?items2.0 = "[item_scored, item_no_score]"
      and ?T3.0 = "fails_twice_then TimeoutException (brave_body [item_scored, item_scored])"
      and ?n3.0 = 3
      and ?d3.0 = "[(''web'', JObj [(''results'', JArr [item_scored, item_scored])])]"
      and ?w3.0 = "[(''results'', JArr [item_scored, item_scored])]"
      and ?items3.0 = "[item_scored, item_scored]"]
  from t c1 k have l1: "length [result_scored, result_default_score]
       \<le> length [item_scored, item_not_a_dict, item_no_score]"
    by simp
  from t c2 k have l2: "length [result_scored, result_default_score] =
      length [item_scored, item_no_score]"
    by simp
  from t k have e3: "\<exists>ws3. search_brave strict_validators tool_both ''q''
        (fails_twice_then TimeoutException (brave_body [item_scored, item_scored])) =
        (Inr ([result_scored, result_scored], ws3), 3, [4, 4])"
    by (simp add: fails_twice_then_def brave_body_def b1 numeral_2_eq_2)
  from t have p: "req_params (brave_request ''test-brave-key'' ''q'') =
      [(''q'', ''q''), (''count'', ''5'')]"
    by simp
  from c1 l1 c2 l2 e3 p show ?thesis by simp
qed

section \<open>Malformed items\<close>

text \<open>
  C7, as stated: each malformed item, one with expected fields missing, is skipped with a
  logged warning. It fails: an item with no field at all is kept, with the default of every
  field, and nothing is printed for it.
\<close>

theorem malformed_items_counterexample:
  "search_brave strict_validators tool_both ''q'' (always (Body (brave_body [item_no_fields]))) =
     (Inr ([result_defaults], []), 1, [])"
  by (simp add: search_brave_def retry_first search_brave_attempt_def tool_both_def always_def
      brave_body_def brave_results_def item_no_fields_def result_defaults_def
      SearchResults_init_def)

text \<open>
  C7, amended: on both paths of \<^verbatim>\<open>search_brave\<close>, an upstream item whose normalisation
  raises, because it is not a dict or because a field value fails validation, is skipped
  with one printed warning, and the call returns the results of the other items in
  upstream order; no item is fatal to the call. An item that only lacks expected fields is
  not skipped: an item that is a dict whose title, url and description are each missing or
  a string, and whose score is missing, null or a float, is kept, and an absent field
  takes its default, the empty string or 0.0.
\<close>

theorem malformed_items_skipped:
  "(brave_api_key self = Some key \<and> key \<noteq> [] \<and> (n = 1 \<or> n = 2 \<or> n = 3) \<and>
    (\<forall>m. 1 \<le> m \<and> m < n \<longrightarrow> (\<exists>e. T m (brave_request key q) = Raises e)) \<and>
    T n (brave_request key q) = Body (JObj d) \<and>
    map_of d ''web'' = Some (JObj w) \<and> map_of w ''results'' = Some (JArr items) \<longrightarrow>
      search_brave V self q T =
        (Inr (map (projr \<circ> brave_item V) (filter (\<lambda>i. \<not> isl (brave_item V i)) items),
              map (WarnBrave \<circ> projl \<circ> brave_item V) (filter (\<lambda>i. isl (brave_item V i)) items)),
         n, replicate (n - 1) 4))
   \<and>
   (brave_api_key self = Some key \<and> key \<noteq> [] \<and> (n2 = 1 \<or> n2 = 2 \<or> n2 = 3) \<and>
    (\<forall>m. 1 \<le> m \<and> m < n2 \<longrightarrow> (\<exists>e. T2 m (brave_request key q) = Raises e)) \<and>
    T2 n2 (brave_request key q) = Body (JObj d2) \<and>
    (map_of d2 ''web'' = None \<or>
     (\<exists>w2. map_of d2 ''web'' = Some (JObj w2) \<and> map_of w2 ''results'' = None)) \<and>
    map_of d2 ''results'' = Some (JArr items2) \<longrightarrow>
      search_brave V self q T2 =
        (Inr (map (projr \<circ> brave_item V) (filter (\<lambda>i. \<not> isl (brave_item V i)) items2),
              map (WarnBraveFallback \<circ> projl \<circ> brave_item V)
                  (filter (\<lambda>i. isl (brave_item V i)) items2)),
         n2, replicate (n2 - 1) 4))
   \<and>
   ((\<forall>fields. item \<noteq> JObj fields) \<longrightarrow> brave_item V item = Inl AttributeError)
   \<and>
   ((map_of f ''title'' = None \<or> (\<exists>s. map_of f ''title'' = Some (JStr s))) \<and>
    (map_of f ''url'' = None \<or> (\<exists>s. map_of f ''url'' = Some (JStr s))) \<and>
    (map_of f ''description'' = None \<or> (\<exists>s. map_of f ''description'' = Some (JStr s))) \<and>
    (map_of f ''score'' = None \<or> map_of f ''score'' = Some JNull \<or>
     (\<exists>x. map_of f ''score'' = Some (JFloat x))) \<longrightarrow>
      (\<exists>r. brave_item V (JObj f) = Inr r \<and>
           (map_of f ''title'' = None \<longrightarrow> title r = []) \<and>
           (map_of f ''url'' = None \<longrightarrow> url r = []) \<and>
           (map_of f ''description'' = None \<longrightarrow> snippet r = []) \<and>
           (map_of f ''score'' = None \<longrightarrow> score r = Some 0)))"
proof (intro conjI impI)
  assume h: "brave_api_key self = Some key \<and> key \<noteq> [] \<and> (n = 1 \<or> n = 2 \<or> n = 3) \<and>
    (\<forall>m. 1 \<le> m \<and> m < n \<longrightarrow> (\<exists>e. T m (brave_request key q) = Raises e)) \<and>
    T n (brave_request key q) = Body (JObj d) \<and>
    map_of d ''web'' = Some (JObj w) \<and> map_of w ''results'' = Some (JArr items)"
  then have r: "brave_results V (JObj d) =
      Inr (map (projr \<circ> brave_item V) (filter (\<lambda>i. \<not> isl (brave_item V i)) items),
           map (WarnBrave \<circ> projl \<circ> brave_item V) (filter (\<lambda>i. isl (brave_item V i)) items))"
    by (simp add: brave_results_nested result_loop_closed)
  from h show "search_brave V self q T =
        (Inr (map (projr \<circ> brave_item V) (filter (\<lambda>i. \<not> isl (brave_item V i)) items),
              map (WarnBrave \<circ> projl \<circ> brave_item V) (filter (\<lambda>i. isl (brave_item V i)) items)),
         n, replicate (n - 1) 4)"
    by (intro search_brave_reply[where key = key and data = "JObj d"] r) simp_all
next
  assume h: "brave_api_key self = Some key \<and> key \<noteq> [] \<and> (n2 = 1 \<or> n2 = 2 \<or> n2 = 3) \<and>
    (\<forall>m. 1 \<le> m \<and> m < n2 \<longrightarrow> (\<exists>e. T2 m (brave_request key q) = Raises e)) \<and>
    T2 n2 (brave_request key q) = Body (JObj d2) \<and>
    (map_of d2 ''web'' = None \<or>
     (\<exists>w2. map_of d2 ''web'' = Some (JObj w2) \<and> map_of w2 ''results'' = None)) \<and>
    map_of d2 ''results'' = Some (JArr items2)"
  then have "brave_results V (JObj d2) =
      Inr (result_loop (brave_item V) WarnBraveFallback items2 ([], []))"
    by (intro brave_results_fallback) simp_all
  then have r: "brave_results V (JObj d2) =
      Inr (map (projr \<circ> brave_item V) (filter (\<lambda>i. \<not> isl (brave_item V i)) items2),
           map (WarnBraveFallback \<circ> projl \<circ> brave_item V)
               (filter (\<lambda>i. isl (brave_item V i)) items2))"
    by (simp add: result_loop_closed)
  from h show "search_brave V self q T2 =
        (Inr (map (projr \<circ> brave_item V) (filter (\<lambda>i. \<not> isl (brave_item V i)) items2),
              map (WarnBraveFallback \<circ> projl \<circ> brave_item V)
                  (filter (\<lambda>i. isl (brave_item V i)) items2)),
         n2, replicate (n2 - 1) 4)"
    by (intro search_brave_reply[where key = key and data = "JObj d2"] r) simp_all
next
  assume "\<forall>fields. item \<noteq> JObj fields"
  then show "brave_item V item = Inl AttributeError"
    by (cases item) simp_all
next
  assume "(map_of f ''title'' = None \<or> (\<exists>s. map_of f ''title'' = Some (JStr s))) \<and>
    (map_of f ''url'' = None \<or> (\<exists>s. map_of f ''url'' = Some (JStr s))) \<and>
    (map_of f ''description'' = None \<or> (\<exists>s. map_of f ''description'' = Some (JStr s))) \<and>
    (map_of f ''score'' = None \<or> map_of f ''score'' = Some JNull \<or>
     (\<exists>x. map_of f ''score'' = Some (JFloat x)))"
  then show "\<exists>r. brave_item V (JObj f) = Inr r \<and>
           (map_of f ''title'' = None \<longrightarrow> title r = []) \<and>
           (map_of f ''url'' = None \<longrightarrow> url r = []) \<and>
           (map_of f ''description'' = None \<longrightarrow> snippet r = []) \<and>
           (map_of f ''score'' = None \<longrightarrow> score r = Some 0)"
    by (auto simp: SearchResults_init_def)
qed

theorem malformed_items_skipped_witness:
  "search_brave strict_validators tool_both ''q''
      (always (Body (brave_body [item_scored, item_not_a_dict, item_no_score]))) =
     (Inr ([result_scored, result_default_score], [WarnBrave AttributeError]), 1, [])
   \<and> search_brave strict_validators tool_both ''q''
      (fails_twice_then TimeoutException (searxng_body [item_not_a_dict, item_scored])) =
     (Inr ([result_scored], [WarnBraveFallback AttributeError]), 3, [4, 4])
   \<and> brave_item strict_validators item_not_a_dict = Inl AttributeError
   \<and> brave_item strict_validators item_no_fields = Inr result_defaults"
proof -
  have b1: "brave_item strict_validators item_scored = Inr result_scored"
    by (simp add: item_scored_def result_scored_def SearchResults_init_def)
  have b3: "brave_item strict_validators item_no_score = Inr result_default_score"
    by (simp add: item_no_score_def result_default_score_def SearchResults_init_def)
  note t = malformed_items_skipped[where V = strict_validators and self = tool_both
      and q = "''q''" and key = "''test-brave-key''"
      and T = "always (Body (brave_body [item_scored, item_not_a_dict, item_no_score]))"
      and n = 1
      and d = "[(''web'', JObj [(''results'', JArr [item_scored, item_not_a_dict, item_no_score])])]"
      and w = "[(''results'', JArr [item_scored, item_not_a_dict, item_no_score])]"
      and items = "[item_scored, item_not_a_dict, item_no_score]"
      and ?T2.0 = "fails_twice_then TimeoutException (searxng_body [item_not_a_dict, item_scored])"
      and ?n2.0 = 3
      and ?d2.0 = "[(''results'', JArr [item_not_a_dict, item_scored])]"
      and ?items2.0 = "[item_not_a_dict, item_scored]"
      and item = item_not_a_dict and f = "[]"]
  from t have b2: "brave_item strict_validators item_not_a_dict = Inl AttributeError"
    by (simp add: item_not_a_dict_def)
  from t have b4: "brave_item strict_validators item_no_fields = Inr result_defaults"
    by (auto simp: item_no_fields_def result_defaults_def)
  from t have c1: "search_brave strict_validators tool_both ''q''
      (always (Body (brave_body [item_scored, item_not_a_dict, item_no_score]))) =
     (Inr ([result_scored, result_default_score], [WarnBrave AttributeError]), 1, [])"
    by (simp add: tool_both_def always_def brave_body_def b1 b2 b3)
  from t have c2: "search_brave strict_validators tool_both ''q''
      (fails_twice_then TimeoutException (searxng_body [item_not_a_dict, item_scored])) =
     (Inr ([result_scored], [WarnBraveFallback AttributeError]), 3, [4, 4])"
    by (simp add: tool_both_def fails_twice_then_def searxng_body_def b1 b2 numeral_2_eq_2)
  from c1 c2 b2 b4 show ?thesis by simp
qed

section \<open>The score field of Variant A\<close>

text \<open>
  C2, as stated: the score is 0.0 exactly when the item carries the key with a null value,
  and is left out when the item has no score. It fails both ways: an explicit null gives
  a result with no score, and an item without the key gives the score 0.0.
\<close>

theorem brave_score_counterexample:
  "brave_item strict_validators item_null_score = Inr (result_default_score\<lparr>score := None\<rparr>)
   \<and> score (result_default_score\<lparr>score := None\<rparr>) \<noteq> Some 0
   \<and> brave_item strict_validators item_no_score = Inr result_default_score
   \<and> score result_default_score = Some 0"
  by (simp add: item_null_score_def item_no_score_def result_default_score_def
      SearchResults_init_def)

text \<open>
  C2, amended: for an upstream item that normalises to a result, the score is 0.0 when the
  item has no \<^verbatim>\<open>score\<close> key (the default of \<^verbatim>\<open>item.get\<close>), it is absent when the key is
  there with an explicit null, and a float under the key is passed through unchanged, bit
  for bit. An integer under the key is not passed through: the result holds the float the
  field's validation converts it to.
\<close>

theorem brave_score:
  assumes "brave_item V (JObj d) = Inr r"
  shows "(map_of d ''score'' = None \<longrightarrow> score r = Some 0) \<and>
         (map_of d ''score'' = Some JNull \<longrightarrow> score r = None) \<and>
         (\<forall>x. map_of d ''score'' = Some (JFloat x) \<longrightarrow> score r = Some x) \<and>
         (\<forall>i. map_of d ''score'' = Some (JInt i) \<longrightarrow> score r = coerce_float V (JInt i))"
  using assms
  by (auto simp: SearchResults_init_def split: option.splits)

theorem brave_score_witness:
  "brave_item strict_validators item_no_score = Inr result_default_score
   \<and> score result_default_score = Some 0
   \<and> brave_item strict_validators item_null_score = Inr (result_default_score\<lparr>score := None\<rparr>)
   \<and> score (result_default_score\<lparr>score := None\<rparr>) = None
   \<and> brave_item strict_validators item_scored = Inr result_scored
   \<and> score result_scored = Some 0x3FE999999999999A"
proof -
  have a: "brave_item strict_validators item_no_score = Inr result_default_score"
    by (simp add: item_no_score_def result_default_score_def SearchResults_init_def)
  have b: "brave_item strict_validators item_null_score =
             Inr (result_default_score\<lparr>score := None\<rparr>)"
    by (simp add: item_null_score_def result_default_score_def SearchResults_init_def)
  have c: "brave_item strict_validators item_scored = Inr result_scored"
    by (simp add: item_scored_def result_scored_def SearchResults_init_def)
  from brave_score[OF a[unfolded item_no_score_def]]
  have "score result_default_score = Some 0" by simp
  moreover from brave_score[OF b[unfolded item_null_score_def]]
  have "score (result_default_score\<lparr>score := None\<rparr>) = None" by simp
  moreover from brave_score[OF c[unfolded item_scored_def]]
  have "score result_scored = Some 0x3FE999999999999A" by simp
  ultimately show ?thesis using a b c by simp
qed

section \<open>Variant B\<close>

text \<open>
  C9: Variant B leaves the score of every result absent and maps the upstream
  \<^verbatim>\<open>content\<close> to the snippet. The loop of lines 152-164 does that, but the call never
  reaches it: on every reply the \<^verbatim>\<open>await\<close> of line 149 raises, so \<^verbatim>\<open>search_searxng\<close>
  returns no result at all, whatever the transport does. For a reply carrying one item the
  loop alone would give one result without a score; the call raises after three attempts.
\<close>

theorem searxng_reply_raises:
  "isl (fst (search_searxng V self q T))
   \<and> searxng_results strict_validators (searxng_body [item_scored]) = Inr ([result_unscored], [])
   \<and> search_searxng strict_validators tool_both ''q''
        (always (Body (searxng_body [item_scored]))) =
      (Inl (SearXNGUnexpected TypeError), 3, [4, 4])"
proof (intro conjI)
  obtain out k sl where c: "search_searxng V self q T = (out, k, sl)"
    by (cases "search_searxng V self q T") auto
  then have "out = search_searxng_attempt V self q (T k)"
    unfolding search_searxng_def by (rule retry_outcome)
  then have "isl out" by (simp add: search_searxng_attempt_fails)
  with c show "isl (fst (search_searxng V self q T))" by simp
next
  show "searxng_results strict_validators (searxng_body [item_scored]) =
      Inr ([result_unscored], [])"
    by (simp add: searxng_body_def searxng_results_def item_scored_def result_unscored_def
        SearchResults_init_def)
next
  have a: "search_searxng_attempt strict_validators tool_both ''q''
      (always (Body (searxng_body [item_scored])) n) = Inl (SearXNGUnexpected TypeError)" for n
    by (simp add: search_searxng_attempt_def tool_both_def always_def await_sync_def)
  have "search_searxng strict_validators tool_both ''q''
      (always (Body (searxng_body [item_scored]))) =
      (search_searxng_attempt strict_validators tool_both ''q''
         (always (Body (searxng_body [item_scored])) 3), 3, [4, 4])"
    unfolding search_searxng_def by (rule retry_third) (use a in simp_all)
  then show "search_searxng strict_validators tool_both ''q''
        (always (Body (searxng_body [item_scored]))) =
      (Inl (SearXNGUnexpected TypeError), 3, [4, 4])"
    by (simp add: a)
qed

section \<open>Retry\<close>

text \<open>
  C3, as stated: three attempts with sleeps that start at 4 and double, so 4 and then 8.
  It fails on the sleeps: both are 4.
\<close>

theorem retry_backoff_counterexample:
  "search_brave strict_validators tool_both ''q'' (always (Raises TimeoutException)) =
     (Inl BraveTimedOut, 3, [4, 4])
   \<and> [4, 4] \<noteq> [4, 8 :: nat]"
  by (simp add: search_brave_def retry_third search_brave_attempt_def tool_both_def always_def)

text \<open>
  C3, amended: when the transport fails on every attempt, the decorated \<^verbatim>\<open>search_brave\<close>
  and \<^verbatim>\<open>search_searxng\<close> make exactly 3 attempts and re-raise the error of the third as it
  is; when the transport fails twice and then answers, \<^verbatim>\<open>search_brave\<close> returns the result
  of the third attempt after exactly 3 attempts. After attempt \<open>n\<close> the call sleeps
  \<open>2 ^ (n - 1)\<close> time-units clamped to the range from 4 to 10, which is 4 time-units after
  the first attempt and 4 after the second.
\<close>

theorem retry_three_attempts:
  "(brave_api_key self = Some key \<and> key \<noteq> [] \<and>
    (\<forall>n. T n (brave_request key q) = Raises (ex n)) \<longrightarrow>
      search_brave V self q T = (search_brave_attempt V self q (T 3), 3, [4, 4]) \<and>
      search_brave_attempt V self q (T 3) = Inl (brave_except (ex 3)))
   \<and>
   (brave_api_key self = Some key \<and> key \<noteq> [] \<and> T2 1 (brave_request key q) = Raises e1 \<and>
    T2 2 (brave_request key q) = Raises e2 \<and> T2 3 (brave_request key q) = Body data \<and>
    brave_results V data = Inr res \<longrightarrow>
      search_brave V self q T2 = (Inr res, 3, [4, 4]))
   \<and>
   (searxng_base_url self' = Some base \<and> base \<noteq> [] \<and>
    (\<forall>n. T' n (searxng_request base q) = Raises (ex' n)) \<longrightarrow>
      search_searxng V self' q T' = (search_searxng_attempt V self' q (T' 3), 3, [4, 4]) \<and>
      search_searxng_attempt V self' q (T' 3) = Inl (searxng_except (ex' 3)))
   \<and>
   (\<forall>n. wait_exponential 1 4 10 n = max 4 (min (2 ^ (n - 1)) 10))"
proof (intro conjI impI allI)
  assume h: "brave_api_key self = Some key \<and> key \<noteq> [] \<and>
    (\<forall>n. T n (brave_request key q) = Raises (ex n))"
  then have a: "search_brave_attempt V self q (T n) = Inl (brave_except (ex n))" for n
    by (simp add: search_brave_attempt_raises)
  show "search_brave V self q T = (search_brave_attempt V self q (T 3), 3, [4, 4])"
    unfolding search_brave_def by (rule retry_third) (use a in simp_all)
  show "search_brave_attempt V self q (T 3) = Inl (brave_except (ex 3))"
    by (rule a)
next
  assume h: "brave_api_key self = Some key \<and> key \<noteq> [] \<and>
    T2 1 (brave_request key q) = Raises e1 \<and> T2 2 (brave_request key q) = Raises e2 \<and>
    T2 3 (brave_request key q) = Body data \<and> brave_results V data = Inr res"
  then have a1: "search_brave_attempt V self q (T2 1) = Inl (brave_except e1)"
    and a2: "search_brave_attempt V self q (T2 2) = Inl (brave_except e2)"
    by (simp_all add: search_brave_attempt_raises)
  from h have a3: "search_brave_attempt V self q (T2 3) = Inr res"
    by (simp add: search_brave_attempt_body[where data = data])
  have "search_brave V self q T2 = (search_brave_attempt V self q (T2 3), 3, [4, 4])"
    unfolding search_brave_def by (rule retry_third) (use a1 a2 in simp_all)
  then show "search_brave V self q T2 = (Inr res, 3, [4, 4])"
    by (simp add: a3)
next
  assume h: "searxng_base_url self' = Some base \<and> base \<noteq> [] \<and>
    (\<forall>n. T' n (searxng_request base q) = Raises (ex' n))"
  then have a: "search_searxng_attempt V self' q (T' n) = Inl (searxng_except (ex' n))" for n
    by (simp add: search_searxng_attempt_raises)
  show "search_searxng V self' q T' = (search_searxng_attempt V self' q (T' 3), 3, [4, 4])"
    unfolding search_searxng_def by (rule retry_third) (use a in simp_all)
  show "search_searxng_attempt V self' q (T' 3) = Inl (searxng_except (ex' 3))"
    by (rule a)
next
  fix n show "wait_exponential 1 4 10 n = max 4 (min (2 ^ (n - 1)) 10)"
    by (simp add: wait_exponential_def)
qed

theorem retry_three_attempts_witness:
  "search_brave strict_validators tool_both ''q''
      (always (Raises (HTTPStatusError 500 ''down''))) = (Inl (BraveApiError 500 ''down''), 3, [4, 4])
   \<and> search_brave strict_validators tool_both ''q''
      (fails_twice_then TimeoutException (brave_body [item_scored])) =
      (Inr ([result_scored], []), 3, [4, 4])
   \<and> search_searxng strict_validators tool_both ''q''
      (always (Raises TimeoutException)) = (Inl SearXNGTimedOut, 3, [4, 4])
   \<and> map (wait_exponential 1 4 10) [1, 2, 3, 4, 5, 6] = [4, 4, 4, 8, 10, 10]"
proof -
  have b: "brave_results strict_validators (brave_body [item_scored]) = Inr ([result_scored], [])"
    by (simp add: brave_body_def brave_results_def item_scored_def result_scored_def
        SearchResults_init_def)
  have w: "map (wait_exponential 1 4 10) [1, 2, 3, 4, 5, 6] = [4, 4, 4, 8, 10, 10]"
    by (simp add: wait_exponential_def)
  show ?thesis
    using retry_three_attempts[where self = tool_both and key = "''test-brave-key''"
        and T = "always (Raises (HTTPStatusError 500 ''down''))"
        and ex = "\<lambda>n. HTTPStatusError 500 ''down''"
        and V = strict_validators and q = "''q''"
        and ?T2.0 = "fails_twice_then TimeoutException (brave_body [item_scored])"
        and ?e1.0 = TimeoutException and ?e2.0 = TimeoutException
        and data = "brave_body [item_scored]" and res = "([result_scored], [])"
        and self' = tool_both and base = "''http://test-searxng-instance''"
        and T' = "always (Raises TimeoutException)" and ex' = "\<lambda>n. TimeoutException"]
      b w
    by (simp add: tool_both_def always_def fails_twice_then_def)
qed

section \<open>Choosing the search provider\<close>

text \<open>
  C5: construction picks Variant A when BRAVE_API_KEY is present, also when both are
  configured; else Variant B when SEARXNG_BASE_URL is present; with neither it fails with
  the "No search provider configured" error and yields no instance. A variable is present
  when it is set and not empty, which is what the code tests.
\<close>

theorem provider_precedence:
  "(truthy (getenv ''BRAVE_API_KEY'') \<longrightarrow>
      WebSearchTool_init getenv =
        Inr \<lparr>brave_api_key = getenv ''BRAVE_API_KEY'',
             searxng_base_url = getenv ''SEARXNG_BASE_URL'', provider = ''brave''\<rparr>)
   \<and>
   (\<not> truthy (getenv ''BRAVE_API_KEY'') \<and> truthy (getenv ''SEARXNG_BASE_URL'') \<longrightarrow>
      WebSearchTool_init getenv =
        Inr \<lparr>brave_api_key = getenv ''BRAVE_API_KEY'',
             searxng_base_url = getenv ''SEARXNG_BASE_URL'', provider = ''searxng''\<rparr>)
   \<and>
   (\<not> truthy (getenv ''BRAVE_API_KEY'') \<and> \<not> truthy (getenv ''SEARXNG_BASE_URL'') \<longrightarrow>
      WebSearchTool_init getenv = Inl NoProviderConfigured)"
  by (simp add: WebSearchTool_init_def Let_def)

theorem provider_precedence_witness:
  "truthy (env_both ''BRAVE_API_KEY'') \<and> truthy (env_both ''SEARXNG_BASE_URL'')
   \<and> WebSearchTool_init env_both = Inr tool_both
   \<and> truthy (env_searxng_only ''SEARXNG_BASE_URL'')
   \<and> WebSearchTool_init env_searxng_only =
       Inr \<lparr>brave_api_key = None, searxng_base_url = Some ''http://test-searxng-instance'',
            provider = ''searxng''\<rparr>
   \<and> WebSearchTool_init env_empty = Inl NoProviderConfigured"
  using provider_precedence[of env_both] provider_precedence[of env_searxng_only]
    provider_precedence[of env_empty]
  by (simp add: env_both_def env_searxng_only_def env_empty_def truthy_def tool_both_def)

section \<open>The provider field after construction\<close>

text \<open>
  C10: after a successful construction the provider field is "brave" or "searxng", never
  empty, so \<^verbatim>\<open>search\<close> never takes its "No search provider configured" branch: it
  announces and calls exactly one of \<^verbatim>\<open>search_brave\<close> and \<^verbatim>\<open>search_searxng\<close>, and its
  outcome is that call's outcome.
\<close>

theorem provider_after_init:
  assumes "WebSearchTool_init getenv = Inr self"
  shows "(provider self = ''brave'' \<or> provider self = ''searxng'') \<and> provider self \<noteq> [] \<and>
         fst (search V self q T) \<noteq> Inl NoProviderInSearch \<and>
         take 2 (snd (search V self q T)) =
           [DebugStartingSearch (provider self),
            if provider self = ''brave'' then DebugUsingBrave else DebugUsingSearXNG] \<and>
         fst (search V self q T) =
           map_sum id fst (fst (if provider self = ''brave'' then search_brave V self q T
                                else search_searxng V self q T))"
proof -
  from assms have p: "provider self = ''brave'' \<or> provider self = ''searxng''"
    by (auto simp: WebSearchTool_init_def Let_def split: if_splits)
  then have ne: "provider self \<noteq> []" by auto
  obtain ob kb sb where b: "search_brave V self q T = (ob, kb, sb)"
    by (cases "search_brave V self q T") auto
  obtain os ks ss where s: "search_searxng V self q T = (os, ks, ss)"
    by (cases "search_searxng V self q T") auto
  from b have "ob = search_brave_attempt V self q (T kb)"
    unfolding search_brave_def by (rule retry_outcome)
  then have nb: "ob \<noteq> Inl NoProviderInSearch"
    by (simp add: search_brave_attempt_error)
  from s have "os = search_searxng_attempt V self q (T ks)"
    unfolding search_searxng_def by (rule retry_outcome)
  then have ns: "os \<noteq> Inl NoProviderInSearch"
    by (simp add: search_searxng_attempt_error)
  show ?thesis
  proof (cases "provider self = ''brave''")
    case True
    with ne b nb p show ?thesis
      by (cases ob) (auto simp: search_def split: prod.splits)
  next
    case False
    with ne s ns p show ?thesis
      by (cases os) (auto simp: search_def split: prod.splits)
  qed
qed

theorem provider_after_init_witness:
  "WebSearchTool_init env_both = Inr tool_both \<and> provider tool_both = ''brave''
   \<and> search strict_validators tool_both ''q'' (always (Body (brave_body [item_scored]))) =
       (Inr [result_scored],
        [DebugStartingSearch ''brave'', DebugUsingBrave, DebugReturned 1])"
proof -
  have i: "WebSearchTool_init env_both = Inr tool_both"
    by (simp add: WebSearchTool_init_def env_both_def truthy_def tool_both_def)
  have c: "search_brave strict_validators tool_both ''q''
             (always (Body (brave_body [item_scored]))) = (Inr ([result_scored], []), 1, [])"
    by (simp add: search_brave_def retry_first search_brave_attempt_def tool_both_def always_def
        brave_body_def brave_results_def item_scored_def result_scored_def
        SearchResults_init_def)
  have p: "provider tool_both = ''brave''"
    using provider_after_init[OF i, of strict_validators "''q''"
        "always (Body (brave_body [item_scored]))"]
    by (simp add: tool_both_def)
  have "search strict_validators tool_both ''q'' (always (Body (brave_body [item_scored]))) =
       (Inr [result_scored],
        [DebugStartingSearch ''brave'', DebugUsingBrave, DebugReturned 1])"
    by (simp add: search_def p c)
  with i p show ?thesis by simp
qed

section \<open>Choosing the generation provider\<close>




section \<open>The context-augmented prompt\<close>

text \<open>
  C4: for results that carry a title, a url and a snippet, the context that
  \<^verbatim>\<open>generate_web_aware_response\<close> builds is the specification's blocks joined by blank
  lines: one block for each result, the block at position \<open>k\<close> (from 0) rendering
  result \<open>k\<close> under the number \<open>k + 1\<close>, in input order, nothing dropped or merged; distinct
  numbers print differently, so the numbers 1 to N name the results one to one. The prompt
  sent to the model holds the query and this context, hence every block.
\<close>

theorem context_blocks:
  assumes "\<forall>res \<in> set results. complete_result res"
  shows "web_context results = Inr (py_join ''\<newline>\<newline>'' (numbered_blocks 1 results)) \<and>
         length (numbered_blocks 1 results) = length results \<and>
         (\<forall>k < length results.
            numbered_blocks 1 results ! k = source_block (k + 1) (results ! k)) \<and>
         (\<forall>j k. str_nat j = str_nat k \<longrightarrow> j = k) \<and>
         generate_web_aware_response svc query results =
           Inr (generate svc
                  (web_prompt query (py_join ''\<newline>\<newline>'' (numbered_blocks 1 results))) 1024) \<and>
         sublist (py_join ''\<newline>\<newline>'' (numbered_blocks 1 results))
           (web_prompt query (py_join ''\<newline>\<newline>'' (numbered_blocks 1 results))) \<and>
         sublist query
           (web_prompt query (py_join ''\<newline>\<newline>'' (numbered_blocks 1 results))) \<and>
         (\<forall>k < length results.
            sublist (source_block (k + 1) (results ! k))
              (web_prompt query (py_join ''\<newline>\<newline>'' (numbered_blocks 1 results))))"
proof -
  let ?ctx = "py_join ''\<newline>\<newline>'' (numbered_blocks 1 results)"
  from assms have g: "generate_all format_source (enumerate 0 results) =
      Inr (numbered_blocks 1 results)"
    using generate_all_format_source[of results 0] by simp
  then have c: "web_context results = Inr ?ctx"
    by (simp add: web_context_def)
  have n: "\<forall>k < length results.
      numbered_blocks 1 results ! k = source_block (k + 1) (results ! k)"
    by (simp add: nth_numbered_blocks)
  have i: "\<forall>j k. str_nat j = str_nat k \<longrightarrow> j = k"
    using str_nat_inject by blast
  have r: "generate_web_aware_response svc query results =
           Inr (generate svc (web_prompt query ?ctx) 1024)"
    by (simp add: generate_web_aware_response_def c)
  have pc: "sublist ?ctx (web_prompt query ?ctx)"
    by (rule sublist_web_prompt_context)
  have pq: "sublist query (web_prompt query ?ctx)"
    by (rule sublist_web_prompt_query)
  have pb: "\<forall>k < length results.
      sublist (source_block (k + 1) (results ! k)) (web_prompt query ?ctx)"
  proof (intro allI impI)
    fix k assume k: "k < length results"
    then have "numbered_blocks 1 results ! k \<in> set (numbered_blocks 1 results)"
      by (simp add: length_numbered_blocks)
    with n k have "source_block (k + 1) (results ! k) \<in> set (numbered_blocks 1 results)"
      by simp
    then have "sublist (source_block (k + 1) (results ! k)) ?ctx"
      by (rule sublist_py_join)
    then show "sublist (source_block (k + 1) (results ! k)) (web_prompt query ?ctx)"
      using pc by (rule sublist_trans_list)
  qed
  from c n i r pc pq pb show ?thesis
    by (simp add: length_numbered_blocks)
qed

theorem context_blocks_witness:
  "complete_result dict_r1 \<and> complete_result dict_r2 \<and>
   web_context [dict_r1, dict_r2] =
     Inr (''Source 1: Rover Update\<newline>URL: https://x\<newline>Content: New findings'' @
          ''\<newline>\<newline>'' @
          ''Source 2: Mars\<newline>URL: https://y\<newline>Content: Red planet'') \<and>
   generate_web_aware_response service_unknown_llm ''What is X?'' [dict_r1, dict_r2] =
     Inr (GenerateOllama
       (''\<newline>    You are a helpful AI assistant that can answer questions using web search results.'' @
        ''\<newline>    \<newline>    User's question: What is X?'' @
        ''\<newline>    \<newline>    Here are some relevant search results:'' @
        ''\<newline>    Source 1: Rover Update\<newline>URL: https://x\<newline>Content: New findings'' @
        ''\<newline>\<newline>Source 2: Mars\<newline>URL: https://y\<newline>Content: Red planet'' @
        ''\<newline>    \<newline>    Based on the above information, please provide a clear and concise answer to the user's question.'' @
        ''\<newline>    If the search results don't contain enough information to answer the question, please say so.'' @
        ''\<newline>    Include relevant source numbers (e.g., [1], [2]) to cite your information.'' @
        ''\<newline>    \<newline>    Answer:\<newline>    '') 1024)"
proof -
  have c: "complete_result dict_r1 \<and> complete_result dict_r2"
    by (simp add: complete_result_def dict_r1_def dict_r2_def)
  have s1: "str_nat 1 = ''1''" by code_simp
  have s2: "str_nat 2 = ''2''" by code_simp
  have b: "numbered_blocks 1 [dict_r1, dict_r2] =
             [''Source 1: Rover Update\<newline>URL: https://x\<newline>Content: New findings'',
              ''Source 2: Mars\<newline>URL: https://y\<newline>Content: Red planet'']"
    by (simp add: source_block_def field_def dict_r1_def dict_r2_def s1 s2
        del: One_nat_def)
  from c have a: "\<forall>res \<in> set [dict_r1, dict_r2]. complete_result res" by simp
  note t = context_blocks[OF a, of service_unknown_llm "''What is X?''"]
  from t b have w: "web_context [dict_r1, dict_r2] =
     Inr (''Source 1: Rover Update\<newline>URL: https://x\<newline>Content: New findings'' @
          ''\<newline>\<newline>'' @
          ''Source 2: Mars\<newline>URL: https://y\<newline>Content: Red planet'')"
    by simp
  from t b have p: "generate_web_aware_response service_unknown_llm ''What is X?''
      [dict_r1, dict_r2] =
     Inr (GenerateOllama
       (''\<newline>    You are a helpful AI assistant that can answer questions using web search results.'' @
        ''\<newline>    \<newline>    User's question: What is X?'' @
        ''\<newline>    \<newline>    Here are some relevant search results:'' @
        ''\<newline>    Source 1: Rover Update\<newline>URL: https://x\<newline>Content: New findings'' @
        ''\<newline>\<newline>Source 2: Mars\<newline>URL: https://y\<newline>Content: Red planet'' @
        ''\<newline>    \<newline>    Based on the above information, please provide a clear and concise answer to the user's question.'' @
        ''\<newline>    If the search results don't contain enough information to answer the question, please say so.'' @
        ''\<newline>    Include relevant source numbers (e.g., [1], [2]) to cite your information.'' @
        ''\<newline>    \<newline>    Answer:\<newline>    '') 1024)"
    by (simp add: web_prompt_def generate_def service_unknown_llm_def)
  from c w p show ?thesis by simp
qed

section \<open>The plain prompt\<close>

text \<open>
  C8, as stated: for every query the plain prompt holds no \<^verbatim>\<open>Source\<close> token and no
  citation bracket. It fails for a query that holds them itself, since the raw query is
  embedded.
\<close>

theorem plain_prompt_counterexample:
  "get_ai_response service_unknown_llm ''Source [1]'' None =
     Inr (GenerateOllama (plain_prompt ''Source [1]'') 1024)
   \<and> sublist ''Source'' (plain_prompt ''Source [1]'')
   \<and> sublist (citation_marker 1) (plain_prompt ''Source [1]'')"
proof -
  have s1: "str_nat 1 = ''1''" by code_simp
  have a: "plain_prompt ''Source [1]'' = ''User: '' @ ''Source'' @ '' [1]\<newline>\<newline>Assistant:''"
    by (simp add: plain_prompt_def)
  have b: "plain_prompt ''Source [1]'' = ''User: Source '' @ ''[1]'' @ ''\<newline>\<newline>Assistant:''"
    by (simp add: plain_prompt_def)
  have m: "citation_marker 1 = ''[1]''"
    using s1 by (simp add: citation_marker_def)
  have "sublist ''Source'' (plain_prompt ''Source [1]'')"
    unfolding a by (rule sublist_appendI)
  moreover have "sublist (citation_marker 1) (plain_prompt ''Source [1]'')"
    unfolding b m by (rule sublist_appendI)
  moreover have "get_ai_response service_unknown_llm ''Source [1]'' None =
     Inr (GenerateOllama (plain_prompt ''Source [1]'') 1024)"
    by (simp add: get_ai_response_def generate_def service_unknown_llm_def)
  ultimately show ?thesis by simp
qed

text \<open>
  C8, amended: when no search results are supplied (none, or an empty list),
  \<^verbatim>\<open>get_ai_response\<close> sends the plain prompt, which is the raw query between
  \<^verbatim>\<open>User: \<close> and \<^verbatim>\<open>Assistant:\<close>; the template adds no \<^verbatim>\<open>Source\<close> token and no
  citation bracket, so the prompt holds one exactly when the query itself does.
\<close>

theorem plain_prompt_tokens:
  "(search_results = None \<or> search_results = Some [] \<longrightarrow>
      get_ai_response svc query search_results = Inr (generate svc (plain_prompt query) 1024))
   \<and> (sublist ''Source'' (plain_prompt query) \<longleftrightarrow> sublist ''Source'' query)
   \<and> (sublist (citation_marker n) (plain_prompt query) \<longleftrightarrow> sublist (citation_marker n) query)"
proof (intro conjI impI)
  assume "search_results = None \<or> search_results = Some []"
  then show "get_ai_response svc query search_results =
      Inr (generate svc (plain_prompt query) 1024)"
    by (auto simp: get_ai_response_def)
next
  show "sublist ''Source'' (plain_prompt query) \<longleftrightarrow> sublist ''Source'' query"
    unfolding plain_prompt_def by (rule sublist_between) simp_all
next
  have "citation_marker n \<noteq> []" "hd (citation_marker n) = CHR ''[''"
    "last (citation_marker n) = CHR '']''"
    by (simp_all add: citation_marker_def)
  then show "sublist (citation_marker n) (plain_prompt query) \<longleftrightarrow>
      sublist (citation_marker n) query"
    unfolding plain_prompt_def by (intro sublist_between) simp_all
qed

theorem plain_prompt_tokens_witness:
  "get_ai_response service_unknown_llm ''hello'' (Some []) =
     Inr (GenerateOllama (plain_prompt ''hello'') 1024)
   \<and> \<not> sublist ''Source'' (plain_prompt ''hello'')
   \<and> \<not> sublist (citation_marker 1) (plain_prompt ''hello'')"
proof -
  have s1: "str_nat 1 = ''1''" by code_simp
  have a: "\<not> sublist ''Source'' ''hello''"
    by (simp add: sublist_code(3))
  have b: "\<not> sublist (citation_marker 1) ''hello''"
    using s1 by (simp add: citation_marker_def sublist_code(3))
  from plain_prompt_tokens[of "Some []" service_unknown_llm "''hello''" 1] a b
  show ?thesis
    by (simp add: generate_def service_unknown_llm_def)
qed

end
